theory Spec2Isabelle
  imports Main "HOL-Library.Finite_Map" "HOL-Library.Product_Lexorder"
begin

unbundle bit_operations_syntax

section \<open>Data model of \<open>be/src/olap/txn_manager.cpp\<close>\<close>

text \<open>
  Identifiers are 64-bit integers in the source (\<open>SchemaHash\<close> 32-bit). The transaction
  manager only compares them, tests \<open>< 1\<close> and masks the transaction id with the shard
  count, so they are modelled as \<open>int\<close>: no arithmetic that could overflow is performed.
  \<open>TabletUid\<close> is a pair (hi, lo); \<open>RowsetId\<close> is opaque with equality.
\<close>

type_synonym TPartitionId = int
type_synonym TTransactionId = int
type_synonym TTabletId = int
type_synonym SchemaHash = int
type_synonym TabletUid = "int \<times> int"
type_synonym RowsetId = nat
type_synonym Version = "int \<times> int"

text \<open>\<open>TxnKey\<close> is \<open>pair<int64_t, int64_t>(partition_id, transaction_id)\<close>.\<close>

type_synonym TxnKey = "int \<times> int"

record PUniqueId =
  hi :: int
  lo :: int

record TabletInfo =
  tablet_id :: TTabletId
  schema_hash :: SchemaHash
  tablet_uid :: TabletUid

text \<open>
  A \<open>Rowset\<close> is seen by the transaction manager through its \<open>RowsetMeta\<close>: the
  immutable rowset id and the version that \<open>make_visible\<close> writes. The protobuf
  returned by \<open>rowset_meta()->get_rowset_pb()\<close> is the current value of this record.
\<close>

record RowsetMeta =
  rowset_id :: RowsetId
  version :: Version

text \<open>
  \<open>RowsetSharedPtr\<close>: a shared pointer is an address into the heap of rowset objects
  (field \<open>rowsets\<close> below); \<open>nullptr\<close> is \<open>None\<close>. Two entries holding the same
  address see each other's \<open>make_visible\<close>.
\<close>

type_synonym RowsetSharedPtr = "nat option"

record TabletTxnInfo =
  load_id :: PUniqueId
  rowset :: RowsetSharedPtr
  creation_time :: int

datatype ErrorCode =
    OLAP_ERR_TOO_MANY_TRANSACTIONS
  | OLAP_ERR_ROWSET_INVALID
  | OLAP_ERR_PUSH_TRANSACTION_ALREADY_EXIST
  | OLAP_ERR_ROWSET_SAVE_FAILED
  | OLAP_ERR_TRANSACTION_NOT_EXIST
  | OLAP_ERR_TRANSACTION_ALREADY_COMMITTED
  | OLAP_ERR_IO_ERROR

datatype Status = OK | OLAPInternalError ErrorCode

type_synonym txn_tablet_map_t = "(TxnKey, (TabletInfo, TabletTxnInfo) fmap) fmap"
type_synonym txn_partition_map_t = "(int, int fset) fmap"

text \<open>
  The rowset meta store behind an \<open>OlapMeta*\<close>: serialized rowset metas keyed by
  (tablet uid, rowset id).
\<close>

type_synonym OlapMeta = "(TabletUid \<times> RowsetId, RowsetMeta) fmap"

text \<open>
  The state the operations read and write: the fields of \<open>TxnManager\<close> (the two arrays of
  \<open>_txn_map_shard_size\<close> maps; the locks and the delta-writer side map are not modelled,
  every operation runs alone), the heap of rowset objects the shared pointers point into,
  and the rowset meta store of the data directory.
\<close>

record engine =
  txn_map_shard_size :: int
  txn_tablet_maps :: "txn_tablet_map_t list"
  txn_partition_maps :: "txn_partition_map_t list"
  rowsets :: "nat \<Rightarrow> RowsetMeta"
  meta :: OlapMeta

section \<open>Collaborators declared outside the translated file\<close>

text \<open>
  Modelled from the spec: the constructor \<open>TabletTxnInfo(load_id, rowset)\<close> is declared in
  \<open>txn_manager.h\<close>, which is not among the sources. The spec's data model says
  \<open>creation_time\<close> is "seconds-since-epoch, set on insert"; \<open>now\<close> is the clock reading
  taken when the object is built.
\<close>

definition new_TabletTxnInfo :: "int \<Rightarrow> PUniqueId \<Rightarrow> RowsetSharedPtr \<Rightarrow> TabletTxnInfo" where
  "new_TabletTxnInfo now load_id' rowset_ptr =
     \<lparr>load_id = load_id', rowset = rowset_ptr, creation_time = now\<rparr>"

text \<open>
  Modelled from the spec: the shard accessors \<open>_get_txn_tablet_map\<close> and
  \<open>_get_txn_partition_map\<close> are declared in \<open>txn_manager.h\<close>. The spec gives the shard
  selection as \<open>shard = txn_id & (count - 1)\<close>, with one count for both arrays.
\<close>

definition shard_index :: "engine \<Rightarrow> TTransactionId \<Rightarrow> nat" where
  "shard_index s transaction_id = nat (transaction_id AND (txn_map_shard_size s - 1))"

definition get_txn_tablet_map :: "engine \<Rightarrow> TTransactionId \<Rightarrow> txn_tablet_map_t" where
  "get_txn_tablet_map s transaction_id = txn_tablet_maps s ! shard_index s transaction_id"

definition get_txn_partition_map :: "engine \<Rightarrow> TTransactionId \<Rightarrow> txn_partition_map_t" where
  "get_txn_partition_map s transaction_id = txn_partition_maps s ! shard_index s transaction_id"

text \<open>
  Modelled from the spec: \<open>Rowset::make_visible(version)\<close> "mutates in-memory meta only"
  and records \<open>version\<close> in it.
\<close>

definition make_visible :: "Version \<Rightarrow> RowsetMeta \<Rightarrow> RowsetMeta" where
  "make_visible v r = r\<lparr>version := v\<rparr>"

text \<open>
  Modelled from the spec: \<open>RowsetMetaManager::save\<close> and \<open>RowsetMetaManager::remove\<close> are
  only declared in \<open>rowset_meta_manager.h\<close>. The spec gives
  \<open>put(tablet_uid, rowset_id, bytes) \<rightarrow> ok | IoError\<close> and
  \<open>remove(tablet_uid, rowset_id) \<rightarrow> ok | IoError\<close> (a missing key is success). Whether the
  disk write succeeds is decided by the environment: it is the argument \<open>io_ok\<close>. A failed
  write is taken to leave the store as it was.
\<close>

definition RowsetMetaManager_save ::
  "bool \<Rightarrow> OlapMeta \<Rightarrow> TabletUid \<Rightarrow> RowsetId \<Rightarrow> RowsetMeta \<Rightarrow> Status \<times> OlapMeta" where
  "RowsetMetaManager_save io_ok m uid rid pb =
     (if io_ok then (OK, fmupd (uid, rid) pb m) else (OLAPInternalError OLAP_ERR_IO_ERROR, m))"

definition RowsetMetaManager_remove ::
  "bool \<Rightarrow> OlapMeta \<Rightarrow> TabletUid \<Rightarrow> RowsetId \<Rightarrow> Status \<times> OlapMeta" where
  "RowsetMetaManager_remove io_ok m uid rid =
     (if io_ok then (OK, fmdrop (uid, rid) m) else (OLAPInternalError OLAP_ERR_IO_ERROR, m))"

section \<open>The constructor and the partition-map helpers\<close>

text \<open>
  \<open>TxnManager::TxnManager(txn_map_shard_size, txn_shard_size)\<close> allocates one empty map
  per shard. \<open>txn_shard_size\<close> only sizes the array of per-transaction mutexes. The heap of
  rowsets and the meta store exist independently of the manager.
\<close>

definition TxnManager :: "int \<Rightarrow> (nat \<Rightarrow> RowsetMeta) \<Rightarrow> OlapMeta \<Rightarrow> engine" where
  "TxnManager n heap store =
     \<lparr>txn_map_shard_size = n,
      txn_tablet_maps = replicate (nat n) fmempty,
      txn_partition_maps = replicate (nat n) fmempty,
      rowsets = heap,
      meta = store\<rparr>"

text \<open>
  What the constructor establishes and every operation keeps: the shard count is positive
  (\<open>DCHECK_GT(_txn_map_shard_size, 0)\<close>) and both arrays have that many elements, so that
  every masked index is in range.
\<close>

definition shards_allocated :: "engine \<Rightarrow> bool" where
  "shards_allocated s \<longleftrightarrow>
     0 < txn_map_shard_size s \<and>
     length (txn_tablet_maps s) = nat (txn_map_shard_size s) \<and>
     length (txn_partition_maps s) = nat (txn_map_shard_size s)"

definition insert_txn_partition_map_unlocked :: "int \<Rightarrow> int \<Rightarrow> engine \<Rightarrow> engine" where
  "insert_txn_partition_map_unlocked transaction_id partition_id s =
     (let txn_partition_map = get_txn_partition_map s transaction_id;
          txn_partition_map1 =
            (if fmlookup txn_partition_map transaction_id = None
             then fmupd transaction_id {||} txn_partition_map
             else txn_partition_map);
          pset = (case fmlookup txn_partition_map1 transaction_id of
                    None \<Rightarrow> {||} | Some ps \<Rightarrow> ps)
      in s\<lparr>txn_partition_maps := (txn_partition_maps s)
             [shard_index s transaction_id :=
                fmupd transaction_id (finsert partition_id pset) txn_partition_map1]\<rparr>)"

definition clear_txn_partition_map_unlocked :: "int \<Rightarrow> int \<Rightarrow> engine \<Rightarrow> engine" where
  "clear_txn_partition_map_unlocked transaction_id partition_id s =
     (let txn_partition_map = get_txn_partition_map s transaction_id
      in case fmlookup txn_partition_map transaction_id of
           None \<Rightarrow> s
         | Some ps \<Rightarrow>
             (let ps' = ps |-| {|partition_id|}
              in s\<lparr>txn_partition_maps := (txn_partition_maps s)
                     [shard_index s transaction_id :=
                        (if ps' = {||} then fmdrop transaction_id txn_partition_map
                         else fmupd transaction_id ps' txn_partition_map)]\<rparr>))"

section \<open>Shared fragments of the operations\<close>

text \<open>
  The lookup every operation starts with:
  \<open>it = txn_tablet_map.find(key)\<close>, then \<open>load_itr = it->second.find(tablet_info)\<close>.
\<close>

definition find_load_info ::
  "txn_tablet_map_t \<Rightarrow> TxnKey \<Rightarrow> TabletInfo \<Rightarrow> TabletTxnInfo option" where
  "find_load_info txn_tablet_map key tablet_info =
     (case fmlookup txn_tablet_map key of
        None \<Rightarrow> None
      | Some tablet_map \<Rightarrow> fmlookup tablet_map tablet_info)"

text \<open>
  \<open>txn_tablet_map[key][tablet_info] = load_info\<close>: \<open>operator[]\<close> creates an empty inner
  map for a new key, then the entry is assigned as a whole.
\<close>

definition assign_load_info ::
  "TTransactionId \<Rightarrow> TxnKey \<Rightarrow> TabletInfo \<Rightarrow> TabletTxnInfo \<Rightarrow> engine \<Rightarrow> engine" where
  "assign_load_info transaction_id key tablet_info load_info s =
     (let txn_tablet_map = get_txn_tablet_map s transaction_id;
          tablet_map = (case fmlookup txn_tablet_map key of
                          None \<Rightarrow> fmempty | Some t \<Rightarrow> t)
      in s\<lparr>txn_tablet_maps := (txn_tablet_maps s)
             [shard_index s transaction_id :=
                fmupd key (fmupd tablet_info load_info tablet_map) txn_tablet_map]\<rparr>)"

text \<open>
  The removal block that closes \<open>publish_txn\<close> (lines 302-314), \<open>rollback_txn\<close>
  (443-450) and \<open>delete_txn\<close> (497-501), entered with \<open>it != end()\<close>:
  \<open>it->second.erase(tablet_info); if (it->second.empty()) { txn_tablet_map.erase(it);
  _clear_txn_partition_map_unlocked(transaction_id, partition_id); }\<close>.
\<close>

definition erase_tablet_info ::
  "TPartitionId \<Rightarrow> TTransactionId \<Rightarrow> TabletInfo \<Rightarrow> (TabletInfo, TabletTxnInfo) fmap
     \<Rightarrow> engine \<Rightarrow> engine" where
  "erase_tablet_info partition_id transaction_id tablet_info tablet_map s =
     (let txn_tablet_map = get_txn_tablet_map s transaction_id;
          tablet_map' = fmdrop tablet_info tablet_map
      in if fmdom tablet_map' = {||}
         then clear_txn_partition_map_unlocked transaction_id partition_id
                (s\<lparr>txn_tablet_maps := (txn_tablet_maps s)
                      [shard_index s transaction_id :=
                         fmdrop (partition_id, transaction_id) txn_tablet_map]\<rparr>)
         else s\<lparr>txn_tablet_maps := (txn_tablet_maps s)
                  [shard_index s transaction_id :=
                     fmupd (partition_id, transaction_id) tablet_map' txn_tablet_map]\<rparr>)"

section \<open>The operations\<close>

text \<open>
  \<open>TxnManager::prepare_txn\<close> (lines 124-169). \<open>max_runnings_transactions_per_txn_map\<close> is
  the configuration constant of that name (defined outside the sources; the spec makes it
  a positive integer), \<open>now\<close> the clock read by the \<open>TabletTxnInfo\<close> constructor.
\<close>

definition prepare_txn ::
  "nat \<Rightarrow> int \<Rightarrow> TPartitionId \<Rightarrow> TTransactionId \<Rightarrow> TTabletId \<Rightarrow> SchemaHash \<Rightarrow> TabletUid
     \<Rightarrow> PUniqueId \<Rightarrow> engine \<Rightarrow> Status \<times> engine" where
  "prepare_txn max_runnings_transactions_per_txn_map now partition_id transaction_id
       tablet_id' schema_hash' tablet_uid' load_id' s =
     (let key = (partition_id, transaction_id);
          tablet_info = \<lparr>tablet_id = tablet_id', schema_hash = schema_hash',
                         tablet_uid = tablet_uid'\<rparr>;
          txn_tablet_map = get_txn_tablet_map s transaction_id
      in if (case find_load_info txn_tablet_map key tablet_info of
               None \<Rightarrow> False
             | Some load_info \<Rightarrow>
                 hi (load_id load_info) = hi load_id' \<and> lo (load_id load_info) = lo load_id' \<and>
                 rowset load_info \<noteq> None)
         then (OK, s)
         else if fcard (fmdom (get_txn_partition_map s transaction_id))
                   > max_runnings_transactions_per_txn_map
         then (OLAPInternalError OLAP_ERR_TOO_MANY_TRANSACTIONS, s)
         else (OK, insert_txn_partition_map_unlocked transaction_id partition_id
                     (assign_load_info transaction_id key tablet_info
                        (new_TabletTxnInfo now load_id' None) s)))"

text \<open>
  \<open>TxnManager::commit_txn\<close> (lines 171-257). \<open>LOG(FATAL)\<close> ends the process: the result
  is \<open>None\<close>. \<open>save_ok\<close> is the outcome of the disk write of \<open>RowsetMetaManager::save\<close>.
\<close>

definition commit_txn ::
  "bool \<Rightarrow> int \<Rightarrow> TPartitionId \<Rightarrow> TTransactionId \<Rightarrow> TTabletId \<Rightarrow> SchemaHash \<Rightarrow> TabletUid
     \<Rightarrow> PUniqueId \<Rightarrow> RowsetSharedPtr \<Rightarrow> bool \<Rightarrow> engine \<Rightarrow> (Status \<times> engine) option" where
  "commit_txn save_ok now partition_id transaction_id tablet_id' schema_hash' tablet_uid'
       load_id' rowset_ptr is_recovery s =
     (if partition_id < 1 \<or> transaction_id < 1 \<or> tablet_id' < 1 then None
      else
        let key = (partition_id, transaction_id);
            tablet_info = \<lparr>tablet_id = tablet_id', schema_hash = schema_hash',
                           tablet_uid = tablet_uid'\<rparr>
        in case rowset_ptr of
             None \<Rightarrow> Some (OLAPInternalError OLAP_ERR_ROWSET_INVALID, s)
           | Some r \<Rightarrow>
               (let found = find_load_info (get_txn_tablet_map s transaction_id) key tablet_info
                in if (case found of
                         None \<Rightarrow> False
                       | Some load_info \<Rightarrow>
                           hi (load_id load_info) = hi load_id' \<and>
                           lo (load_id load_info) = lo load_id' \<and>
                           (case rowset load_info of
                              None \<Rightarrow> False
                            | Some r0 \<Rightarrow> rowset_id (rowsets s r0) = rowset_id (rowsets s r)))
                   then Some (OK, s)
                   else if (case found of
                              None \<Rightarrow> False
                            | Some load_info \<Rightarrow>
                                hi (load_id load_info) = hi load_id' \<and>
                                lo (load_id load_info) = lo load_id' \<and>
                                (case rowset load_info of
                                   None \<Rightarrow> False
                                 | Some r0 \<Rightarrow>
                                     rowset_id (rowsets s r0) \<noteq> rowset_id (rowsets s r)))
                   then Some (OLAPInternalError OLAP_ERR_PUSH_TRANSACTION_ALREADY_EXIST, s)
                   else
                     let (save_status, meta') =
                           (if \<not> is_recovery
                            then RowsetMetaManager_save save_ok (meta s) tablet_uid'
                                   (rowset_id (rowsets s r)) (rowsets s r)
                            else (OK, meta s))
                     in if save_status \<noteq> OK
                        then Some (OLAPInternalError OLAP_ERR_ROWSET_SAVE_FAILED,
                                   s\<lparr>meta := meta'\<rparr>)
                        else Some (OK,
                               insert_txn_partition_map_unlocked transaction_id partition_id
                                 (assign_load_info transaction_id key tablet_info
                                    (new_TabletTxnInfo now load_id' (Some r))
                                    (s\<lparr>meta := meta'\<rparr>)))))"

text \<open>
  \<open>TxnManager::publish_txn\<close> (lines 260-401). Lines 316-400 look the tablet up in the
  storage engine and, for a merge-on-write unique-key tablet, build the delete bitmap.
  They read the rowset's segments and write the tablet's delete bitmap and meta, none of
  which is state of this model, so their outcome is the argument \<open>delete_bitmap_phase\<close>:
  \<open>None\<close> when a \<open>CHECK\<close> ends the process, otherwise the status returned (\<open>OK\<close> when
  merge-on-write does not apply).
\<close>

definition publish_txn ::
  "bool \<Rightarrow> Status option \<Rightarrow> TPartitionId \<Rightarrow> TTransactionId \<Rightarrow> TTabletId \<Rightarrow> SchemaHash
     \<Rightarrow> TabletUid \<Rightarrow> Version \<Rightarrow> engine \<Rightarrow> (Status \<times> engine) option" where
  "publish_txn save_ok delete_bitmap_phase partition_id transaction_id tablet_id' schema_hash'
       tablet_uid' version' s =
     (let key = (partition_id, transaction_id);
          tablet_info = \<lparr>tablet_id = tablet_id', schema_hash = schema_hash',
                         tablet_uid = tablet_uid'\<rparr>;
          rowset_ptr = (case find_load_info (get_txn_tablet_map s transaction_id)
                               key tablet_info of
                          None \<Rightarrow> None
                        | Some load_info \<Rightarrow> rowset load_info)
      in case rowset_ptr of
           None \<Rightarrow> Some (OLAPInternalError OLAP_ERR_TRANSACTION_NOT_EXIST, s)
         | Some r \<Rightarrow>
             (let s1 = s\<lparr>rowsets := (rowsets s)(r := make_visible version' (rowsets s r))\<rparr>;
                  (save_status, meta') =
                     RowsetMetaManager_save save_ok (meta s1) tablet_uid'
                       (rowset_id (rowsets s1 r)) (rowsets s1 r);
                  s2 = s1\<lparr>meta := meta'\<rparr>
              in if save_status \<noteq> OK
                 then Some (OLAPInternalError OLAP_ERR_ROWSET_SAVE_FAILED, s2)
                 else
                   let s3 = (case fmlookup (get_txn_tablet_map s2 transaction_id) key of
                               None \<Rightarrow> s2
                             | Some tablet_map \<Rightarrow>
                                 erase_tablet_info partition_id transaction_id tablet_info
                                   tablet_map s2)
                   in case delete_bitmap_phase of
                        None \<Rightarrow> None
                      | Some st \<Rightarrow> Some (st, s3)))"

text \<open>\<open>TxnManager::rollback_txn\<close> (lines 424-453).\<close>

definition rollback_txn ::
  "TPartitionId \<Rightarrow> TTransactionId \<Rightarrow> TTabletId \<Rightarrow> SchemaHash \<Rightarrow> TabletUid \<Rightarrow> engine
     \<Rightarrow> Status \<times> engine" where
  "rollback_txn partition_id transaction_id tablet_id' schema_hash' tablet_uid' s =
     (let key = (partition_id, transaction_id);
          tablet_info = \<lparr>tablet_id = tablet_id', schema_hash = schema_hash',
                         tablet_uid = tablet_uid'\<rparr>
      in case fmlookup (get_txn_tablet_map s transaction_id) key of
           None \<Rightarrow> (OK, s)
         | Some tablet_map \<Rightarrow>
             if (case fmlookup tablet_map tablet_info of
                   None \<Rightarrow> False
                 | Some load_info \<Rightarrow> rowset load_info \<noteq> None)
             then (OLAPInternalError OLAP_ERR_TRANSACTION_ALREADY_COMMITTED, s)
             else (OK, erase_tablet_info partition_id transaction_id tablet_info tablet_map s))"

text \<open>
  \<open>TxnManager::delete_txn\<close> (lines 457-503). \<open>has_meta\<close> is \<open>meta != nullptr\<close>,
  \<open>remove_ok\<close> the outcome of the disk write of \<open>RowsetMetaManager::remove\<close>, whose
  status the source discards. \<open>StorageEngine::add_unused_rowset\<close> acts on the storage
  engine only.
\<close>

definition delete_txn ::
  "bool \<Rightarrow> bool \<Rightarrow> TPartitionId \<Rightarrow> TTransactionId \<Rightarrow> TTabletId \<Rightarrow> SchemaHash \<Rightarrow> TabletUid
     \<Rightarrow> engine \<Rightarrow> Status \<times> engine" where
  "delete_txn has_meta remove_ok partition_id transaction_id tablet_id' schema_hash'
       tablet_uid' s =
     (let key = (partition_id, transaction_id);
          tablet_info = \<lparr>tablet_id = tablet_id', schema_hash = schema_hash',
                         tablet_uid = tablet_uid'\<rparr>
      in case fmlookup (get_txn_tablet_map s transaction_id) key of
           None \<Rightarrow> (OLAPInternalError OLAP_ERR_TRANSACTION_NOT_EXIST, s)
         | Some tablet_map \<Rightarrow>
             (case fmlookup tablet_map tablet_info of
                None \<Rightarrow>
                  (OK, erase_tablet_info partition_id transaction_id tablet_info tablet_map s)
              | Some load_info \<Rightarrow>
                  (case rowset load_info of
                     None \<Rightarrow>
                       (OK, erase_tablet_info partition_id transaction_id tablet_info
                              tablet_map s)
                   | Some r \<Rightarrow>
                       if has_meta
                       then if fst (version (rowsets s r)) > 0
                            then (OLAPInternalError OLAP_ERR_TRANSACTION_ALREADY_COMMITTED, s)
                            else (OK, erase_tablet_info partition_id transaction_id tablet_info
                                        tablet_map
                                        (s\<lparr>meta := snd (RowsetMetaManager_remove remove_ok
                                                           (meta s) tablet_uid'
                                                           (rowset_id (rowsets s r)))\<rparr>))
                       else (OK, erase_tablet_info partition_id transaction_id tablet_info
                                   tablet_map s))))"

text \<open>
  \<open>TxnManager::force_rollback_tablet_related_txns\<close> (lines 532-565). The body of the
  inner loop, for the element with key \<open>key\<close> of shard \<open>i\<close>; \<open>remove_ok\<close> gives the
  outcome of the disk write for each rowset id.
\<close>

definition force_rollback_key ::
  "bool \<Rightarrow> (RowsetId \<Rightarrow> bool) \<Rightarrow> TabletInfo \<Rightarrow> nat \<Rightarrow> TxnKey \<Rightarrow> engine \<Rightarrow> engine" where
  "force_rollback_key has_meta remove_ok tablet_info i key s =
     (case fmlookup (txn_tablet_maps s ! i) key of
        None \<Rightarrow> s
      | Some tablet_map \<Rightarrow>
          (let s1 = (case fmlookup tablet_map tablet_info of
                       None \<Rightarrow> s
                     | Some load_info \<Rightarrow>
                         (let s' = (case rowset load_info of
                                      None \<Rightarrow> s
                                    | Some r \<Rightarrow>
                                        if has_meta
                                        then s\<lparr>meta := snd (RowsetMetaManager_remove
                                                 (remove_ok (rowset_id (rowsets s r))) (meta s)
                                                 (tablet_uid tablet_info)
                                                 (rowset_id (rowsets s r)))\<rparr>
                                        else s)
                          in s'\<lparr>txn_tablet_maps := (txn_tablet_maps s')
                                 [i := fmupd key (fmdrop tablet_info tablet_map)
                                         (txn_tablet_maps s' ! i)]\<rparr>))
           in if fmdom (fmdrop tablet_info tablet_map) = {||}
              then (let s2 = clear_txn_partition_map_unlocked (snd key) (fst key) s1
                    in s2\<lparr>txn_tablet_maps := (txn_tablet_maps s2)
                            [i := fmdrop key (txn_tablet_maps s2 ! i)]\<rparr>)
              else s1))"

text \<open>
  The inner loop visits the keys of the \<open>std::map\<close> in key order; \<open>erase(it)\<close> returns
  the next iterator, so every key present at the start is visited once.
\<close>

definition force_rollback_shard ::
  "bool \<Rightarrow> (RowsetId \<Rightarrow> bool) \<Rightarrow> TabletInfo \<Rightarrow> nat \<Rightarrow> engine \<Rightarrow> engine" where
  "force_rollback_shard has_meta remove_ok tablet_info i s =
     fold (force_rollback_key has_meta remove_ok tablet_info i)
       (sorted_list_of_fset (fmdom (txn_tablet_maps s ! i))) s"

definition force_rollback_tablet_related_txns ::
  "bool \<Rightarrow> (RowsetId \<Rightarrow> bool) \<Rightarrow> TTabletId \<Rightarrow> SchemaHash \<Rightarrow> TabletUid \<Rightarrow> engine \<Rightarrow> engine" where
  "force_rollback_tablet_related_txns has_meta remove_ok tablet_id' schema_hash' tablet_uid' s =
     fold (force_rollback_shard has_meta remove_ok
             \<lparr>tablet_id = tablet_id', schema_hash = schema_hash', tablet_uid = tablet_uid'\<rparr>)
       [0 ..< nat (txn_map_shard_size s)] s"

text \<open>
  \<open>TxnManager::get_partition_ids\<close> (lines 636-646): the partition ids recorded for a
  transaction, none when the transaction has no element in its shard's partition map.
\<close>

definition get_partition_ids :: "engine \<Rightarrow> TTransactionId \<Rightarrow> int fset" where
  "get_partition_ids s transaction_id =
     (case fmlookup (get_txn_partition_map s transaction_id) transaction_id of
        None \<Rightarrow> {||}
      | Some ps \<Rightarrow> ps)"

text \<open>\<open>TxnManager::has_txn\<close> (lines 602-612).\<close>

definition has_txn ::
  "TPartitionId \<Rightarrow> TTransactionId \<Rightarrow> TTabletId \<Rightarrow> SchemaHash \<Rightarrow> TabletUid \<Rightarrow> engine \<Rightarrow> bool" where
  "has_txn partition_id transaction_id tablet_id' schema_hash' tablet_uid' s =
     (find_load_info (get_txn_tablet_map s transaction_id) (partition_id, transaction_id)
        \<lparr>tablet_id = tablet_id', schema_hash = schema_hash', tablet_uid = tablet_uid'\<rparr>
      \<noteq> None)"

section \<open>Reachable states\<close>

text \<open>
  The states of a manager built by the constructor (whose \<open>DCHECK\<close>s ask for a positive
  power of two) and driven by any sequence of completed operations, with any arguments
  and any outcome of the disk writes.
\<close>

inductive reachable :: "nat \<Rightarrow> engine \<Rightarrow> bool" for max_running :: nat where
  reach_init:
    "0 < n \<Longrightarrow> n AND (n - 1) = 0 \<Longrightarrow> reachable max_running (TxnManager n heap store)"
| reach_prepare:
    "reachable max_running s \<Longrightarrow>
     prepare_txn max_running now p t tb sh uid lid s = (st, s') \<Longrightarrow>
     reachable max_running s'"
| reach_commit:
    "reachable max_running s \<Longrightarrow>
     commit_txn save_ok now p t tb sh uid lid rp is_recovery s = Some (st, s') \<Longrightarrow>
     reachable max_running s'"
| reach_publish:
    "reachable max_running s \<Longrightarrow>
     publish_txn save_ok phase p t tb sh uid v s = Some (st, s') \<Longrightarrow>
     reachable max_running s'"
| reach_rollback:
    "reachable max_running s \<Longrightarrow>
     rollback_txn p t tb sh uid s = (st, s') \<Longrightarrow>
     reachable max_running s'"
| reach_delete:
    "reachable max_running s \<Longrightarrow>
     delete_txn has_meta remove_ok p t tb sh uid s = (st, s') \<Longrightarrow>
     reachable max_running s'"
| reach_force_rollback:
    "reachable max_running s \<Longrightarrow>
     reachable max_running
       (force_rollback_tablet_related_txns has_meta remove_oks tb sh uid s)"

text \<open>
  The relation between the two arrays that the helpers maintain, shard by shard: a key
  of the tablet map lives in the shard of its transaction id, and the partition ids
  recorded for a transaction are the partition ids of the keys with that transaction.
\<close>

definition recorded_partitions :: "txn_partition_map_t \<Rightarrow> TTransactionId \<Rightarrow> int fset" where
  "recorded_partitions m transaction_id =
     (case fmlookup m transaction_id of None \<Rightarrow> {||} | Some ps \<Rightarrow> ps)"

definition partition_index_ok :: "engine \<Rightarrow> bool" where
  "partition_index_ok s \<longleftrightarrow>
     shards_allocated s \<and>
     (\<forall>i < length (txn_tablet_maps s). \<forall>p t.
        ((p, t) |\<in>| fmdom (txn_tablet_maps s ! i) \<longrightarrow> shard_index s t = i) \<and>
        (p |\<in>| recorded_partitions (txn_partition_maps s ! i) t
           \<longleftrightarrow> (p, t) |\<in>| fmdom (txn_tablet_maps s ! i)))"

text \<open>
  Only commit stores a rowset, and commit ends the process on an id below 1: the ids of
  a committed entry are at least 1.
\<close>

definition committed_ids_valid :: "engine \<Rightarrow> bool" where
  "committed_ids_valid s \<longleftrightarrow>
     (\<forall>i < length (txn_tablet_maps s). \<forall>p t tm ti e.
        fmlookup (txn_tablet_maps s ! i) (p, t) = Some tm \<longrightarrow>
        fmlookup tm ti = Some e \<longrightarrow> rowset e \<noteq> None \<longrightarrow>
        1 \<le> p \<and> 1 \<le> t \<and> 1 \<le> tablet_id ti)"

section \<open>Concrete states used to exercise the theorems\<close>

text \<open>
  Scenario S1 of the spec on a manager with one shard: partition 10, transaction 100,
  tablet \<open>(7, 42, U1)\<close>, load id \<open>L1\<close>. Address \<open>a\<close> of the heap holds the unpublished
  rowset with id \<open>a\<close>.
\<close>

definition U1 :: TabletUid where "U1 = (1, 1)"
definition L1 :: PUniqueId where "L1 = \<lparr>hi = 1, lo = 1\<rparr>"
definition L2 :: PUniqueId where "L2 = \<lparr>hi = 2, lo = 2\<rparr>"
definition T1 :: TabletInfo where "T1 = \<lparr>tablet_id = 7, schema_hash = 42, tablet_uid = U1\<rparr>"

definition heap0 :: "nat \<Rightarrow> RowsetMeta" where
  "heap0 a = \<lparr>rowset_id = a, version = (0, 0)\<rparr>"

definition ex_init :: engine where
  "ex_init = TxnManager 1 heap0 fmempty"

definition ex_prepared :: engine where
  "ex_prepared =
     \<lparr>txn_map_shard_size = 1,
      txn_tablet_maps =
        [fmupd (10, 100) (fmupd T1 \<lparr>load_id = L1, rowset = None, creation_time = 0\<rparr> fmempty)
           fmempty],
      txn_partition_maps = [fmupd 100 {|10|} fmempty],
      rowsets = heap0,
      meta = fmempty\<rparr>"

definition ex_committed :: engine where
  "ex_committed =
     \<lparr>txn_map_shard_size = 1,
      txn_tablet_maps =
        [fmupd (10, 100) (fmupd T1 \<lparr>load_id = L1, rowset = Some 1, creation_time = 3\<rparr> fmempty)
           fmempty],
      txn_partition_maps = [fmupd 100 {|10|} fmempty],
      rowsets = heap0,
      meta = fmupd (U1, 1) \<lparr>rowset_id = 1, version = (0, 0)\<rparr> fmempty\<rparr>"

definition ex_published :: engine where
  "ex_published =
     \<lparr>txn_map_shard_size = 1,
      txn_tablet_maps = [fmempty],
      txn_partition_maps = [fmempty],
      rowsets = heap0(1 := \<lparr>rowset_id = 1, version = (5, 5)\<rparr>),
      meta = fmupd (U1, 1) \<lparr>rowset_id = 1, version = (5, 5)\<rparr> fmempty\<rparr>"

text \<open>
  The state after a second prepare with the same arguments at clock reading 1; the state
  after a publish whose disk write failed; and a state with a second transaction 101
  prepared beside the committed transaction 100.
\<close>

definition ex_prepared_again :: engine where
  "ex_prepared_again =
     \<lparr>txn_map_shard_size = 1,
      txn_tablet_maps =
        [fmupd (10, 100) (fmupd T1 \<lparr>load_id = L1, rowset = None, creation_time = 1\<rparr> fmempty)
           fmempty],
      txn_partition_maps = [fmupd 100 {|10|} fmempty],
      rowsets = heap0,
      meta = fmempty\<rparr>"

definition ex_publish_failed :: engine where
  "ex_publish_failed =
     \<lparr>txn_map_shard_size = 1,
      txn_tablet_maps =
        [fmupd (10, 100) (fmupd T1 \<lparr>load_id = L1, rowset = Some 1, creation_time = 3\<rparr> fmempty)
           fmempty],
      txn_partition_maps = [fmupd 100 {|10|} fmempty],
      rowsets = heap0(1 := \<lparr>rowset_id = 1, version = (5, 5)\<rparr>),
      meta = fmupd (U1, 1) \<lparr>rowset_id = 1, version = (0, 0)\<rparr> fmempty\<rparr>"

definition ex_two_txns :: engine where
  "ex_two_txns =
     \<lparr>txn_map_shard_size = 1,
      txn_tablet_maps =
        [fmupd (10, 101) (fmupd T1 \<lparr>load_id = L1, rowset = None, creation_time = 4\<rparr> fmempty)
           (fmupd (10, 100)
              (fmupd T1 \<lparr>load_id = L1, rowset = Some 1, creation_time = 3\<rparr> fmempty)
              fmempty)],
      txn_partition_maps = [fmupd 101 {|10|} (fmupd 100 {|10|} fmempty)],
      rowsets = heap0,
      meta = fmupd (U1, 1) \<lparr>rowset_id = 1, version = (0, 0)\<rparr> fmempty\<rparr>"

section \<open>Basic facts about the shards and the helpers\<close>

lemma PUniqueId_eq_iff: "(a :: PUniqueId) = b \<longleftrightarrow> hi a = hi b \<and> lo a = lo b"
  by (cases a, cases b) simp

lemma shard_index_less:
  assumes "shards_allocated s"
  shows "shard_index s t < nat (txn_map_shard_size s)"
proof -
  from assms have pos: "0 \<le> txn_map_shard_size s - 1"
    by (simp add: shards_allocated_def)
  then have "t AND (txn_map_shard_size s - 1) \<le> txn_map_shard_size s - 1"
    by (rule AND_upper2)
  moreover have "0 < txn_map_shard_size s"
    using assms by (simp add: shards_allocated_def)
  ultimately show ?thesis
    unfolding shard_index_def by arith
qed

lemma shard_index_in_range:
  assumes "shards_allocated s"
  shows "shard_index s t < length (txn_tablet_maps s)"
    and "shard_index s t < length (txn_partition_maps s)"
  using assms shard_index_less[OF assms, of t] by (simp_all add: shards_allocated_def)

lemma shard_index_one [simp]: "txn_map_shard_size s = 1 \<Longrightarrow> shard_index s t = 0"
  by (simp add: shard_index_def)

lemma insert_partition_frame [simp]:
  "txn_map_shard_size (insert_txn_partition_map_unlocked t p s) = txn_map_shard_size s"
  "txn_tablet_maps (insert_txn_partition_map_unlocked t p s) = txn_tablet_maps s"
  "rowsets (insert_txn_partition_map_unlocked t p s) = rowsets s"
  "meta (insert_txn_partition_map_unlocked t p s) = meta s"
  by (simp_all add: insert_txn_partition_map_unlocked_def Let_def)

lemma clear_partition_frame [simp]:
  "txn_map_shard_size (clear_txn_partition_map_unlocked t p s) = txn_map_shard_size s"
  "txn_tablet_maps (clear_txn_partition_map_unlocked t p s) = txn_tablet_maps s"
  "rowsets (clear_txn_partition_map_unlocked t p s) = rowsets s"
  "meta (clear_txn_partition_map_unlocked t p s) = meta s"
  by (simp_all add: clear_txn_partition_map_unlocked_def Let_def split: option.splits)

lemma assign_load_info_frame [simp]:
  "txn_map_shard_size (assign_load_info t k ti li s) = txn_map_shard_size s"
  "txn_partition_maps (assign_load_info t k ti li s) = txn_partition_maps s"
  "rowsets (assign_load_info t k ti li s) = rowsets s"
  "meta (assign_load_info t k ti li s) = meta s"
  by (simp_all add: assign_load_info_def Let_def)

lemma erase_tablet_info_frame [simp]:
  "txn_map_shard_size (erase_tablet_info p t ti tm s) = txn_map_shard_size s"
  "rowsets (erase_tablet_info p t ti tm s) = rowsets s"
  "meta (erase_tablet_info p t ti tm s) = meta s"
  by (simp_all add: erase_tablet_info_def Let_def)

lemma shard_index_helpers [simp]:
  "shard_index (insert_txn_partition_map_unlocked t p s) x = shard_index s x"
  "shard_index (clear_txn_partition_map_unlocked t p s) x = shard_index s x"
  "shard_index (assign_load_info t k ti li s) x = shard_index s x"
  "shard_index (erase_tablet_info p t ti tm s) x = shard_index s x"
  "shard_index (s\<lparr>meta := m\<rparr>) x = shard_index s x"
  "shard_index (s\<lparr>rowsets := h\<rparr>) x = shard_index s x"
  "shard_index (s\<lparr>txn_tablet_maps := tms\<rparr>) x = shard_index s x"
  "shard_index (s\<lparr>txn_partition_maps := pms\<rparr>) x = shard_index s x"
  by (simp_all add: shard_index_def)

lemma get_tablet_map_after_insert_partition [simp]:
  "get_txn_tablet_map (insert_txn_partition_map_unlocked t p s) x = get_txn_tablet_map s x"
  by (simp add: get_txn_tablet_map_def)

lemma get_tablet_map_after_clear_partition [simp]:
  "get_txn_tablet_map (clear_txn_partition_map_unlocked t p s) x = get_txn_tablet_map s x"
  by (simp add: get_txn_tablet_map_def)

lemma get_map_field_updates [simp]:
  "get_txn_tablet_map (s\<lparr>meta := m\<rparr>) x = get_txn_tablet_map s x"
  "get_txn_tablet_map (s\<lparr>rowsets := h\<rparr>) x = get_txn_tablet_map s x"
  "get_txn_partition_map (s\<lparr>meta := m\<rparr>) x = get_txn_partition_map s x"
  "get_txn_partition_map (s\<lparr>rowsets := h\<rparr>) x = get_txn_partition_map s x"
  by (simp_all add: get_txn_tablet_map_def get_txn_partition_map_def)

lemma shards_allocated_field_updates [simp]:
  "shards_allocated (s\<lparr>meta := m\<rparr>) = shards_allocated s"
  "shards_allocated (s\<lparr>rowsets := h\<rparr>) = shards_allocated s"
  by (simp_all add: shards_allocated_def)

lemma find_after_assign:
  "shards_allocated s \<Longrightarrow>
   find_load_info (get_txn_tablet_map (assign_load_info t k ti li s) t) k ti = Some li"
  by (simp add: assign_load_info_def get_txn_tablet_map_def find_load_info_def Let_def
      shard_index_in_range)

lemma find_after_erase:
  "shards_allocated s \<Longrightarrow>
   find_load_info (get_txn_tablet_map (erase_tablet_info p t ti tm s) t) (p, t) ti = None"
  by (simp add: erase_tablet_info_def get_txn_tablet_map_def find_load_info_def Let_def
      shard_index_in_range)

lemma fmupd_same: "fmlookup m k = Some v \<Longrightarrow> fmupd k v m = m"
  by (rule fmap_ext) auto

lemma erase_result_lookup:
  "shards_allocated s \<Longrightarrow>
   fmlookup (get_txn_tablet_map (erase_tablet_info p t ti tm s) t) (p, t)
   = (if fmdom (fmdrop ti tm) = {||} then None else Some (fmdrop ti tm))"
  by (simp add: erase_tablet_info_def get_txn_tablet_map_def Let_def shard_index_in_range)

lemma erase_absent_noop:
  assumes "fmlookup (get_txn_tablet_map s t) (p, t) = Some tm"
    and "fmlookup tm ti = None" and "fmdom tm \<noteq> {||}"
  shows "erase_tablet_info p t ti tm s = s"
proof -
  have "fmdrop ti tm = tm"
    using assms(2) by (simp add: fmdrop_idle fmdom_notI)
  moreover have "fmupd (p, t) tm (get_txn_tablet_map s t) = get_txn_tablet_map s t"
    using assms(1) by (rule fmupd_same)
  ultimately show ?thesis
    using assms(3) by (simp add: erase_tablet_info_def Let_def get_txn_tablet_map_def)
qed

lemma helper_lengths [simp]:
  "length (txn_partition_maps (insert_txn_partition_map_unlocked t p s))
     = length (txn_partition_maps s)"
  "length (txn_partition_maps (clear_txn_partition_map_unlocked t p s))
     = length (txn_partition_maps s)"
  "length (txn_tablet_maps (assign_load_info t k ti li s)) = length (txn_tablet_maps s)"
  "length (txn_tablet_maps (erase_tablet_info p t ti tm s)) = length (txn_tablet_maps s)"
  "length (txn_partition_maps (erase_tablet_info p t ti tm s)) = length (txn_partition_maps s)"
  by (simp_all add: insert_txn_partition_map_unlocked_def clear_txn_partition_map_unlocked_def
      assign_load_info_def erase_tablet_info_def Let_def split: option.splits)

lemma helpers_keep_allocation [simp]:
  "shards_allocated (insert_txn_partition_map_unlocked t p s) = shards_allocated s"
  "shards_allocated (clear_txn_partition_map_unlocked t p s) = shards_allocated s"
  "shards_allocated (assign_load_info t k ti li s) = shards_allocated s"
  "shards_allocated (erase_tablet_info p t ti tm s) = shards_allocated s"
  by (simp_all add: shards_allocated_def)

lemma allocated_lengths:
  "shards_allocated s \<Longrightarrow> length (txn_partition_maps s) = length (txn_tablet_maps s)"
  by (simp add: shards_allocated_def)

lemma assign_insert_commute:
  "assign_load_info t k ti li (insert_txn_partition_map_unlocked t' p s)
   = insert_txn_partition_map_unlocked t' p (assign_load_info t k ti li s)"
  by (simp add: assign_load_info_def insert_txn_partition_map_unlocked_def Let_def
      get_txn_tablet_map_def get_txn_partition_map_def)

lemma insert_partition_idem:
  "shards_allocated s \<Longrightarrow>
   insert_txn_partition_map_unlocked t p (insert_txn_partition_map_unlocked t p s)
   = insert_txn_partition_map_unlocked t p s"
  by (simp add: insert_txn_partition_map_unlocked_def Let_def get_txn_partition_map_def
      shard_index_in_range)

lemma assign_overwrite:
  "shards_allocated s \<Longrightarrow>
   assign_load_info t k ti li (assign_load_info t k ti li' s) = assign_load_info t k ti li s"
  by (simp add: assign_load_info_def Let_def get_txn_tablet_map_def shard_index_in_range)

lemma clear_commutes_tablet_maps:
  "clear_txn_partition_map_unlocked t p (s\<lparr>txn_tablet_maps := X\<rparr>)
   = (clear_txn_partition_map_unlocked t p s)\<lparr>txn_tablet_maps := X\<rparr>"
  by (simp add: clear_txn_partition_map_unlocked_def get_txn_partition_map_def Let_def
      split: option.splits)

section \<open>The concrete states are the ones scenario S1 goes through\<close>

lemma ex_init_explicit:
  "ex_init = \<lparr>txn_map_shard_size = 1, txn_tablet_maps = [fmempty],
      txn_partition_maps = [fmempty], rowsets = heap0, meta = fmempty\<rparr>"
  by (simp add: ex_init_def TxnManager_def)

lemma ex_prepare: "prepare_txn cap 0 10 100 7 42 U1 L1 ex_init = (OK, ex_prepared)"
  by (simp add: ex_init_explicit prepare_txn_def get_txn_tablet_map_def
      get_txn_partition_map_def find_load_info_def assign_load_info_def
      insert_txn_partition_map_unlocked_def new_TabletTxnInfo_def ex_prepared_def T1_def
      Let_def fcard_fempty)

lemma ex_commit:
  "commit_txn True 3 10 100 7 42 U1 L1 (Some 1) False ex_prepared = Some (OK, ex_committed)"
  by (simp add: commit_txn_def get_txn_tablet_map_def get_txn_partition_map_def
      find_load_info_def assign_load_info_def insert_txn_partition_map_unlocked_def
      new_TabletTxnInfo_def ex_prepared_def ex_committed_def T1_def Let_def
      RowsetMetaManager_save_def heap0_def L1_def)

lemma ex_publish:
  "publish_txn True (Some OK) 10 100 7 42 U1 (5, 5) ex_committed = Some (OK, ex_published)"
  by (simp add: publish_txn_def get_txn_tablet_map_def get_txn_partition_map_def
      find_load_info_def erase_tablet_info_def clear_txn_partition_map_unlocked_def
      ex_published_def ex_committed_def T1_def Let_def RowsetMetaManager_save_def
      make_visible_def heap0_def L1_def fmdrop_fmupd_same)

lemma ex_committed_allocated: "shards_allocated ex_committed"
  by (simp add: shards_allocated_def ex_committed_def)

lemma ex_committed_entry:
  "find_load_info (get_txn_tablet_map ex_committed 100) (10, 100)
     \<lparr>tablet_id = 7, schema_hash = 42, tablet_uid = U1\<rparr>
   = Some \<lparr>load_id = L1, rowset = Some 1, creation_time = 3\<rparr>"
  by (simp add: find_load_info_def get_txn_tablet_map_def ex_committed_def T1_def)

lemma ex_prepared_allocated: "shards_allocated ex_prepared"
  by (simp add: shards_allocated_def ex_prepared_def)

lemma ex_init_allocated: "shards_allocated ex_init"
  by (simp add: shards_allocated_def ex_init_explicit)

lemma ex_prepared_entry:
  "find_load_info (get_txn_tablet_map ex_prepared 100) (10, 100)
     \<lparr>tablet_id = 7, schema_hash = 42, tablet_uid = U1\<rparr>
   = Some \<lparr>load_id = L1, rowset = None, creation_time = 0\<rparr>"
  by (simp add: find_load_info_def get_txn_tablet_map_def ex_prepared_def T1_def)

lemma ex_prepared_again_entry:
  "find_load_info (get_txn_tablet_map ex_prepared_again 100) (10, 100)
     \<lparr>tablet_id = 7, schema_hash = 42, tablet_uid = U1\<rparr>
   = Some \<lparr>load_id = L1, rowset = None, creation_time = 1\<rparr>"
  by (simp add: find_load_info_def get_txn_tablet_map_def ex_prepared_again_def T1_def)

lemma ex_prepare_again:
  "prepare_txn 100 1 10 100 7 42 U1 L1 ex_prepared = (OK, ex_prepared_again)"
  by (simp add: prepare_txn_def get_txn_tablet_map_def get_txn_partition_map_def
      find_load_info_def assign_load_info_def insert_txn_partition_map_unlocked_def
      new_TabletTxnInfo_def ex_prepared_def ex_prepared_again_def T1_def Let_def
      fcard_fempty fcard_finsert_if)

lemma ex_prepared_again_differs: "ex_prepared_again \<noteq> ex_prepared"
proof
  assume "ex_prepared_again = ex_prepared"
  then have "find_load_info (get_txn_tablet_map ex_prepared_again 100) (10, 100)
               \<lparr>tablet_id = 7, schema_hash = 42, tablet_uid = U1\<rparr>
             = find_load_info (get_txn_tablet_map ex_prepared 100) (10, 100)
                 \<lparr>tablet_id = 7, schema_hash = 42, tablet_uid = U1\<rparr>"
    by simp
  then show False
    by (simp add: ex_prepared_entry ex_prepared_again_entry)
qed

lemma ex_committed_size: "fcard (fmdom (get_txn_partition_map ex_committed t)) = 1"
  by (simp add: ex_committed_def get_txn_partition_map_def fcard_finsert_if fcard_fempty)

lemma ex_prepare_second_txn:
  "prepare_txn 1 4 10 101 7 42 U1 L1 ex_committed = (OK, ex_two_txns)"
  by (simp add: prepare_txn_def get_txn_tablet_map_def get_txn_partition_map_def
      find_load_info_def assign_load_info_def insert_txn_partition_map_unlocked_def
      new_TabletTxnInfo_def ex_committed_def ex_two_txns_def T1_def Let_def
      fcard_fempty fcard_finsert_if)

lemma ex_two_txns_size: "fcard (fmdom (get_txn_partition_map ex_two_txns t)) = 2"
  by (simp add: ex_two_txns_def get_txn_partition_map_def fcard_finsert_if fcard_fempty)

lemma ex_two_txns_allocated: "shards_allocated ex_two_txns"
  by (simp add: shards_allocated_def ex_two_txns_def)

lemma ex_two_txns_entry:
  "find_load_info (get_txn_tablet_map ex_two_txns 100) (10, 100)
     \<lparr>tablet_id = 7, schema_hash = 42, tablet_uid = U1\<rparr>
   = Some \<lparr>load_id = L1, rowset = Some 1, creation_time = 3\<rparr>"
  by (simp add: find_load_info_def get_txn_tablet_map_def ex_two_txns_def T1_def)

lemma ex_publish_fails:
  "publish_txn False (Some OK) 10 100 7 42 U1 (5, 5) ex_committed
   = Some (OLAPInternalError OLAP_ERR_ROWSET_SAVE_FAILED, ex_publish_failed)"
  by (simp add: publish_txn_def get_txn_tablet_map_def find_load_info_def
      ex_publish_failed_def ex_committed_def T1_def Let_def RowsetMetaManager_save_def
      make_visible_def heap0_def)

lemma ex_delete_after_publish:
  "delete_txn True True 10 100 7 42 U1 ex_published
   = (OLAPInternalError OLAP_ERR_TRANSACTION_NOT_EXIST, ex_published)"
  by (simp add: delete_txn_def get_txn_tablet_map_def ex_published_def)

lemma ex_init_reachable: "reachable cap ex_init"
  unfolding ex_init_def by (rule reach_init) simp_all

lemma ex_prepared_reachable: "reachable cap ex_prepared"
  by (rule reach_prepare[OF ex_init_reachable ex_prepare])

section \<open>Duplicate and conflicting commits\<close>

text \<open>
  Claim C3. Where the index holds a committed entry with load id \<open>L\<close> and rowset \<open>R\<close>, a
  further commit with the same \<open>L\<close> and a rowset \<open>R'\<close> whose rowset id equals that of \<open>R\<close>
  returns ok and changes nothing: the entry stays, and the rowset meta store is not
  written (whatever \<open>is_recovery\<close> and the disk would have answered). The three ids are
  at least 1, as they are for every commit that returns and for every committed entry of
  a reachable state.
\<close>

theorem commit_txn_duplicate_is_idempotent:
  assumes "1 \<le> partition_id" and "1 \<le> transaction_id" and "1 \<le> tablet_id'"
    and "find_load_info (get_txn_tablet_map s transaction_id) (partition_id, transaction_id)
           \<lparr>tablet_id = tablet_id', schema_hash = schema_hash', tablet_uid = tablet_uid'\<rparr>
         = Some e"
    and "load_id e = L" and "rowset e = Some R"
    and "rowset_id (rowsets s R') = rowset_id (rowsets s R)"
  shows "commit_txn save_ok now partition_id transaction_id tablet_id' schema_hash' tablet_uid'
           L (Some R') is_recovery s = Some (OK, s)"
  using assms by (auto simp: commit_txn_def)

theorem commit_txn_duplicate_is_idempotent_witness:
  "commit_txn False 9 10 100 7 42 U1 L1 (Some 1) False ex_committed = Some (OK, ex_committed)"
  by (rule commit_txn_duplicate_is_idempotent
        [where e = "\<lparr>load_id = L1, rowset = Some 1, creation_time = 3\<rparr>" and R = 1])
     (simp_all add: ex_committed_entry)

text \<open>
  Claim C4. Where the index holds a committed entry with load id \<open>L\<close> and rowset \<open>R\<close>, a
  commit with the same \<open>L\<close> and a rowset \<open>R'\<close> whose rowset id differs from that of \<open>R\<close>
  returns the already-exists error, and the state returned is the state given: the index
  still holds \<open>R\<close> for that key and tablet.
\<close>

theorem commit_txn_conflicting_rowset_rejected:
  assumes "1 \<le> partition_id" and "1 \<le> transaction_id" and "1 \<le> tablet_id'"
    and "find_load_info (get_txn_tablet_map s transaction_id) (partition_id, transaction_id)
           \<lparr>tablet_id = tablet_id', schema_hash = schema_hash', tablet_uid = tablet_uid'\<rparr>
         = Some e"
    and "load_id e = L" and "rowset e = Some R"
    and "rowset_id (rowsets s R') \<noteq> rowset_id (rowsets s R)"
  shows "commit_txn save_ok now partition_id transaction_id tablet_id' schema_hash' tablet_uid'
           L (Some R') is_recovery s
         = Some (OLAPInternalError OLAP_ERR_PUSH_TRANSACTION_ALREADY_EXIST, s)"
  using assms by (auto simp: commit_txn_def)

theorem commit_txn_conflicting_rowset_rejected_witness:
  "commit_txn True 9 10 100 7 42 U1 L1 (Some 2) False ex_committed
   = Some (OLAPInternalError OLAP_ERR_PUSH_TRANSACTION_ALREADY_EXIST, ex_committed)"
  by (rule commit_txn_conflicting_rowset_rejected
        [where e = "\<lparr>load_id = L1, rowset = Some 1, creation_time = 3\<rparr>" and R = 1])
     (simp_all add: ex_committed_entry, simp add: ex_committed_def heap0_def)

section \<open>Publish\<close>

text \<open>
  Claim C1. For every state with allocated shards in which partition, transaction and
  tablet hold a committed entry with rowset \<open>R\<close>: if publish with version \<open>v\<close> returns ok,
  the index has no entry for that key and tablet any more (the lookup finds nothing and
  \<open>has_txn\<close> answers no), and the value stored in the rowset meta store under
  (tablet uid, rowset id of \<open>R\<close>) is the meta of \<open>R\<close> as it now is, with its rowset id and
  with version \<open>v\<close>.
\<close>

theorem publish_txn_ok_removes_entry_and_saves_version:
  assumes "shards_allocated s"
    and "find_load_info (get_txn_tablet_map s transaction_id) (partition_id, transaction_id)
           \<lparr>tablet_id = tablet_id', schema_hash = schema_hash', tablet_uid = tablet_uid'\<rparr>
         = Some e"
    and "rowset e = Some R"
    and "publish_txn save_ok phase partition_id transaction_id tablet_id' schema_hash'
           tablet_uid' v s = Some (OK, s')"
  shows "find_load_info (get_txn_tablet_map s' transaction_id) (partition_id, transaction_id)
           \<lparr>tablet_id = tablet_id', schema_hash = schema_hash', tablet_uid = tablet_uid'\<rparr>
         = None \<and>
         \<not> has_txn partition_id transaction_id tablet_id' schema_hash' tablet_uid' s' \<and>
         fmlookup (meta s') (tablet_uid', rowset_id (rowsets s R)) = Some (rowsets s' R) \<and>
         version (rowsets s' R) = v \<and>
         rowset_id (rowsets s' R) = rowset_id (rowsets s R)"
proof -
  obtain tm where
    "fmlookup (get_txn_tablet_map s transaction_id) (partition_id, transaction_id) = Some tm"
    using assms(2) by (auto simp: find_load_info_def split: option.splits)
  with assms show ?thesis
    by (auto simp: publish_txn_def Let_def RowsetMetaManager_save_def make_visible_def
        find_after_erase has_txn_def split: if_splits option.splits)
qed

theorem publish_txn_ok_removes_entry_and_saves_version_witness:
  "find_load_info (get_txn_tablet_map ex_published 100) (10, 100)
     \<lparr>tablet_id = 7, schema_hash = 42, tablet_uid = U1\<rparr> = None \<and>
   \<not> has_txn 10 100 7 42 U1 ex_published \<and>
   fmlookup (meta ex_published) (U1, rowset_id (rowsets ex_committed 1))
     = Some (rowsets ex_published 1) \<and>
   version (rowsets ex_published 1) = (5, 5) \<and>
   rowset_id (rowsets ex_published 1) = rowset_id (rowsets ex_committed 1)"
  by (rule publish_txn_ok_removes_entry_and_saves_version
        [where e = "\<lparr>load_id = L1, rowset = Some 1, creation_time = 3\<rparr>"
           and s = ex_committed and save_ok = True and phase = "Some OK"])
     (simp_all add: ex_committed_entry ex_committed_allocated ex_publish)

section \<open>Delete after publish\<close>

lemma publish_ok_is_erase:
  assumes "publish_txn save_ok phase p t tb sh uid v s = Some (OK, s1)"
  shows "\<exists>tm s2. shards_allocated s2 = shards_allocated s \<and>
           fmlookup (get_txn_tablet_map s2 t) (p, t) = Some tm \<and>
           s1 = erase_tablet_info p t \<lparr>tablet_id = tb, schema_hash = sh, tablet_uid = uid\<rparr>
                  tm s2"
proof -
  let ?ti = "\<lparr>tablet_id = tb, schema_hash = sh, tablet_uid = uid\<rparr>"
  from assms obtain e R where
    e: "find_load_info (get_txn_tablet_map s t) (p, t) ?ti = Some e" and R: "rowset e = Some R"
    by (auto simp: publish_txn_def Let_def split: option.splits)
  then obtain tm where tm: "fmlookup (get_txn_tablet_map s t) (p, t) = Some tm"
    by (auto simp: find_load_info_def split: option.splits)
  define s2 where
    "s2 = s\<lparr>rowsets := (rowsets s)(R := make_visible v (rowsets s R)),
            meta := fmupd (uid, rowset_id (make_visible v (rowsets s R)))
                      (make_visible v (rowsets s R)) (meta s)\<rparr>"
  have "s1 = erase_tablet_info p t ?ti tm s2"
    using assms e R tm
    by (auto simp: publish_txn_def Let_def RowsetMetaManager_save_def s2_def
        split: if_splits option.splits)
  moreover have "shards_allocated s2 = shards_allocated s"
    by (simp add: s2_def shards_allocated_def)
  moreover have "fmlookup (get_txn_tablet_map s2 t) (p, t) = Some tm"
    using tm by (simp add: s2_def get_txn_tablet_map_def shard_index_def)
  ultimately show ?thesis by blast
qed

lemma publish_ok_leaves_no_entry:
  assumes "shards_allocated s"
    and "publish_txn save_ok phase p t tb sh uid v s = Some (OK, s1)"
    and "fmlookup (get_txn_tablet_map s1 t) (p, t) = Some tm1"
  shows "fmlookup tm1 \<lparr>tablet_id = tb, schema_hash = sh, tablet_uid = uid\<rparr> = None \<and>
         fmdom tm1 \<noteq> {||}"
proof -
  let ?ti = "\<lparr>tablet_id = tb, schema_hash = sh, tablet_uid = uid\<rparr>"
  from publish_ok_is_erase[OF assms(2)] obtain tm s2 where
    s2: "shards_allocated s2" and s1: "s1 = erase_tablet_info p t ?ti tm s2"
    using assms(1) by auto
  have "fmlookup (get_txn_tablet_map s1 t) (p, t)
        = (if fmdom (fmdrop ?ti tm) = {||} then None else Some (fmdrop ?ti tm))"
    unfolding s1 by (rule erase_result_lookup[OF s2])
  with assms(3) have "fmdom (fmdrop ?ti tm) \<noteq> {||}" and "tm1 = fmdrop ?ti tm"
    by (simp_all split: if_splits)
  then show ?thesis by simp
qed

text \<open>
  Claim C2, as the code has it. After a publish that returned ok, the entry is gone from
  the index, so a delete_txn for the same partition, transaction and tablet never reaches
  the already-committed branch: it returns the transaction-not-exist error when the key
  has no tablet left, and ok when other tablets remain under the key. In both cases the
  state returned is the state given: the rowset meta store keeps the published meta.
\<close>

theorem delete_txn_after_publish_finds_nothing:
  assumes "shards_allocated s"
    and "publish_txn save_ok phase partition_id transaction_id tablet_id' schema_hash'
           tablet_uid' v s = Some (OK, s1)"
  shows "delete_txn has_meta remove_ok partition_id transaction_id tablet_id' schema_hash'
           tablet_uid' s1
         = (if fmlookup (get_txn_tablet_map s1 transaction_id) (partition_id, transaction_id)
               = None
            then OLAPInternalError OLAP_ERR_TRANSACTION_NOT_EXIST else OK, s1)"
proof (cases "fmlookup (get_txn_tablet_map s1 transaction_id) (partition_id, transaction_id)")
  case None
  then show ?thesis by (simp add: delete_txn_def)
next
  case (Some tm1)
  from publish_ok_leaves_no_entry[OF assms Some]
  have absent: "fmlookup tm1 \<lparr>tablet_id = tablet_id', schema_hash = schema_hash',
                  tablet_uid = tablet_uid'\<rparr> = None"
    and nonempty: "fmdom tm1 \<noteq> {||}"
    by simp_all
  show ?thesis
    using Some absent erase_absent_noop[OF Some absent nonempty] by (simp add: delete_txn_def)
qed

theorem delete_txn_after_publish_finds_nothing_witness:
  "delete_txn True True 10 100 7 42 U1 ex_published
   = (OLAPInternalError OLAP_ERR_TRANSACTION_NOT_EXIST, ex_published)"
  using delete_txn_after_publish_finds_nothing
          [OF ex_committed_allocated ex_publish, of True True]
  by (simp add: get_txn_tablet_map_def ex_published_def)

text \<open>
  The claim as stated fails on scenario S1: prepare, commit and publish return ok, and
  the delete_txn that follows returns the transaction-not-exist error, not the
  already-committed one.
\<close>

theorem delete_txn_after_publish_counterexample:
  "prepare_txn 100 0 10 100 7 42 U1 L1 ex_init = (OK, ex_prepared) \<and>
   commit_txn True 3 10 100 7 42 U1 L1 (Some 1) False ex_prepared = Some (OK, ex_committed) \<and>
   publish_txn True (Some OK) 10 100 7 42 U1 (5, 5) ex_committed = Some (OK, ex_published) \<and>
   fst (delete_txn True True 10 100 7 42 U1 ex_published)
     = OLAPInternalError OLAP_ERR_TRANSACTION_NOT_EXIST \<and>
   fst (delete_txn True True 10 100 7 42 U1 ex_published)
     \<noteq> OLAPInternalError OLAP_ERR_TRANSACTION_ALREADY_COMMITTED"
  using ex_prepare[of 100] ex_commit ex_publish ex_delete_after_publish by simp

section \<open>Prepare: the cap on running transactions\<close>

text \<open>
  Claim C5, as the code has it. On a state with allocated shards, prepare returns the
  too-many-transactions error exactly when the call is not a repeated prepare of an entry
  already committed with the same load id and the partition map of the shard, as it is
  before anything is inserted, already has more elements than the configured maximum;
  the state is then returned unchanged.
\<close>

theorem prepare_txn_too_many_iff:
  assumes "shards_allocated s"
  shows "(fst (prepare_txn cap now partition_id transaction_id tablet_id' schema_hash'
                 tablet_uid' L s)
            = OLAPInternalError OLAP_ERR_TOO_MANY_TRANSACTIONS
          \<longleftrightarrow>
            cap < fcard (fmdom (get_txn_partition_map s transaction_id)) \<and>
            \<not> (\<exists>e. find_load_info (get_txn_tablet_map s transaction_id)
                       (partition_id, transaction_id)
                       \<lparr>tablet_id = tablet_id', schema_hash = schema_hash',
                          tablet_uid = tablet_uid'\<rparr> = Some e \<and>
                     load_id e = L \<and> rowset e \<noteq> None)) \<and>
         (fst (prepare_txn cap now partition_id transaction_id tablet_id' schema_hash'
                 tablet_uid' L s)
            = OLAPInternalError OLAP_ERR_TOO_MANY_TRANSACTIONS
          \<longrightarrow>
            snd (prepare_txn cap now partition_id transaction_id tablet_id' schema_hash'
                   tablet_uid' L s) = s)"
  by (auto simp: prepare_txn_def Let_def PUniqueId_eq_iff split: option.splits)

lemma ex_two_txns_no_102:
  "find_load_info (get_txn_tablet_map ex_two_txns 102) (10, 102)
     \<lparr>tablet_id = 7, schema_hash = 42, tablet_uid = U1\<rparr> = None"
  by (simp add: find_load_info_def get_txn_tablet_map_def ex_two_txns_def)

theorem prepare_txn_too_many_iff_witness:
  "fst (prepare_txn 1 5 10 102 7 42 U1 L1 ex_two_txns)
     = OLAPInternalError OLAP_ERR_TOO_MANY_TRANSACTIONS \<and>
   snd (prepare_txn 1 5 10 102 7 42 U1 L1 ex_two_txns) = ex_two_txns"
  using prepare_txn_too_many_iff [OF ex_two_txns_allocated, of 1 5 10 102 7 42 U1 L1]
  by (simp add: ex_two_txns_size ex_two_txns_no_102)

text \<open>
  The claim as stated fails with a maximum of 1: the shard's partition map holds one
  transaction (100), transaction 101 is new, so inserting it makes the size 2, above the
  maximum; prepare returns ok and the size is 2 afterwards.
\<close>

theorem prepare_txn_cap_counterexample:
  "fcard (fmdom (get_txn_partition_map ex_committed 101)) = 1 \<and>
   fmlookup (get_txn_partition_map ex_committed 101) 101 = None \<and>
   prepare_txn 1 4 10 101 7 42 U1 L1 ex_committed = (OK, ex_two_txns) \<and>
   fcard (fmdom (get_txn_partition_map ex_two_txns 101)) = 2"
proof -
  have "fmlookup (get_txn_partition_map ex_committed 101) 101 = None"
    by (simp add: get_txn_partition_map_def ex_committed_def)
  with ex_committed_size[of 101] ex_two_txns_size[of 101] ex_prepare_second_txn
  show ?thesis by simp
qed

section \<open>Prepare twice\<close>

text \<open>
  Claim C6, as the code has it. Two consecutive prepare calls with the same arguments,
  the first at clock reading \<open>now1\<close> and the second at \<open>now2\<close>. The first call inserts
  the entry exactly when the state it starts from has no entry already committed with the
  same load id and the partition map of the shard has no more elements than the
  configured maximum; the entry it leaves is uncommitted, with creation time \<open>now1\<close>.
  If the first call inserted and the cap check passes again on the state it left, the
  second call assigns the entry anew: the state it leaves is the state after the first
  call with that entry's creation time set to \<open>now2\<close>, and nothing else changed. In every
  other case the second call leaves the state exactly as the first call left it. When both
  calls read the same clock value the state is unchanged.
\<close>

theorem prepare_txn_twice_changes_only_creation_time:
  assumes alloc: "shards_allocated s"
    and first: "prepare_txn cap now1 partition_id transaction_id tablet_id' schema_hash'
                  tablet_uid' L s = (st1, s1)"
    and second: "prepare_txn cap now2 partition_id transaction_id tablet_id' schema_hash'
                   tablet_uid' L s1 = (st2, s2)"
  shows "s2 = (if \<not> (\<exists>e. find_load_info (get_txn_tablet_map s transaction_id)
                            (partition_id, transaction_id)
                            \<lparr>tablet_id = tablet_id', schema_hash = schema_hash',
                               tablet_uid = tablet_uid'\<rparr> = Some e \<and>
                          load_id e = L \<and> rowset e \<noteq> None) \<and>
                  fcard (fmdom (get_txn_partition_map s transaction_id)) \<le> cap \<and>
                  fcard (fmdom (get_txn_partition_map s1 transaction_id)) \<le> cap
               then assign_load_info transaction_id (partition_id, transaction_id)
                      \<lparr>tablet_id = tablet_id', schema_hash = schema_hash',
                         tablet_uid = tablet_uid'\<rparr>
                      \<lparr>load_id = L, rowset = None, creation_time = now2\<rparr> s1
               else s1) \<and>
         (\<not> (\<exists>e. find_load_info (get_txn_tablet_map s transaction_id)
                     (partition_id, transaction_id)
                     \<lparr>tablet_id = tablet_id', schema_hash = schema_hash',
                        tablet_uid = tablet_uid'\<rparr> = Some e \<and>
                   load_id e = L \<and> rowset e \<noteq> None) \<and>
          fcard (fmdom (get_txn_partition_map s transaction_id)) \<le> cap \<longrightarrow>
            find_load_info (get_txn_tablet_map s1 transaction_id)
              (partition_id, transaction_id)
              \<lparr>tablet_id = tablet_id', schema_hash = schema_hash', tablet_uid = tablet_uid'\<rparr>
            = Some \<lparr>load_id = L, rowset = None, creation_time = now1\<rparr> \<and>
            (fcard (fmdom (get_txn_partition_map s1 transaction_id)) \<le> cap \<longrightarrow>
               find_load_info (get_txn_tablet_map s2 transaction_id)
                 (partition_id, transaction_id)
                 \<lparr>tablet_id = tablet_id', schema_hash = schema_hash',
                    tablet_uid = tablet_uid'\<rparr>
               = Some \<lparr>load_id = L, rowset = None, creation_time = now2\<rparr>)) \<and>
         (now2 = now1 \<longrightarrow> s2 = s1)"
proof -
  let ?ti = "\<lparr>tablet_id = tablet_id', schema_hash = schema_hash', tablet_uid = tablet_uid'\<rparr>"
  let ?k = "(partition_id, transaction_id)"
  let ?e = "\<lambda>now. \<lparr>load_id = L, rowset = None, creation_time = now\<rparr>"
  let ?committed = "\<exists>e. find_load_info (get_txn_tablet_map s transaction_id) ?k ?ti = Some e \<and>
                       load_id e = L \<and> rowset e \<noteq> None"
  let ?inserted = "insert_txn_partition_map_unlocked transaction_id partition_id
      (assign_load_info transaction_id ?k ?ti (?e now1) s)"
  have guard: "(case find_load_info (get_txn_tablet_map s transaction_id) ?k ?ti of
                  None \<Rightarrow> False
                | Some load_info \<Rightarrow>
                    hi (load_id load_info) = hi L \<and> lo (load_id load_info) = lo L \<and>
                    rowset load_info \<noteq> None) = ?committed"
    by (auto simp: PUniqueId_eq_iff split: option.splits)
  show ?thesis
  proof (cases "\<not> ?committed \<and> fcard (fmdom (get_txn_partition_map s transaction_id)) \<le> cap")
    case False
    with first guard have "s1 = s"
      by (auto simp: prepare_txn_def Let_def split: if_splits)
    moreover from False guard have
      "snd (prepare_txn cap now2 partition_id transaction_id tablet_id' schema_hash'
              tablet_uid' L s) = s"
      by (auto simp: prepare_txn_def Let_def split: if_splits)
    ultimately have "s2 = s1"
      using second by simp
    with False show ?thesis by auto
  next
    case True
    with first guard have s1: "s1 = ?inserted"
      by (auto simp: prepare_txn_def Let_def new_TabletTxnInfo_def split: if_splits)
    have alloc1: "shards_allocated s1"
      unfolding s1 using alloc by simp
    have found: "find_load_info (get_txn_tablet_map s1 transaction_id) ?k ?ti = Some (?e now1)"
      unfolding s1 using alloc by (simp add: find_after_assign)
    have again: "insert_txn_partition_map_unlocked transaction_id partition_id
                   (assign_load_info transaction_id ?k ?ti (?e now2) s1)
                 = assign_load_info transaction_id ?k ?ti (?e now2) s1"
      unfolding s1 using alloc by (simp add: assign_insert_commute insert_partition_idem)
    have same: "assign_load_info transaction_id ?k ?ti (?e now1) s1 = s1"
      unfolding s1 using alloc by (simp add: assign_insert_commute assign_overwrite)
    from second found again have s2:
      "s2 = (if fcard (fmdom (get_txn_partition_map s1 transaction_id)) \<le> cap
             then assign_load_info transaction_id ?k ?ti (?e now2) s1 else s1)"
      by (auto simp: prepare_txn_def Let_def new_TabletTxnInfo_def split: if_splits)
    have "fcard (fmdom (get_txn_partition_map s1 transaction_id)) \<le> cap \<Longrightarrow>
          find_load_info (get_txn_tablet_map s2 transaction_id) ?k ?ti = Some (?e now2)"
      using s2 alloc1 by (simp add: find_after_assign)
    with True s2 found same show ?thesis by auto
  qed
qed

lemma ex_init_no_entry:
  "find_load_info (get_txn_tablet_map ex_init 100) (10, 100)
     \<lparr>tablet_id = 7, schema_hash = 42, tablet_uid = U1\<rparr> = None"
  by (simp add: find_load_info_def get_txn_tablet_map_def ex_init_explicit)

lemma ex_init_size: "fcard (fmdom (get_txn_partition_map ex_init t)) = 0"
  by (simp add: get_txn_partition_map_def ex_init_explicit fcard_fempty)

lemma ex_prepared_size: "fcard (fmdom (get_txn_partition_map ex_prepared t)) = 1"
  by (simp add: get_txn_partition_map_def ex_prepared_def fcard_finsert_if fcard_fempty)

theorem prepare_txn_twice_changes_only_creation_time_witness:
  "ex_prepared_again
   = assign_load_info 100 (10, 100) \<lparr>tablet_id = 7, schema_hash = 42, tablet_uid = U1\<rparr>
       \<lparr>load_id = L1, rowset = None, creation_time = 1\<rparr> ex_prepared \<and>
   find_load_info (get_txn_tablet_map ex_prepared 100) (10, 100)
     \<lparr>tablet_id = 7, schema_hash = 42, tablet_uid = U1\<rparr>
   = Some \<lparr>load_id = L1, rowset = None, creation_time = 0\<rparr> \<and>
   find_load_info (get_txn_tablet_map ex_prepared_again 100) (10, 100)
     \<lparr>tablet_id = 7, schema_hash = 42, tablet_uid = U1\<rparr>
   = Some \<lparr>load_id = L1, rowset = None, creation_time = 1\<rparr>"
  using prepare_txn_twice_changes_only_creation_time
          [OF ex_init_allocated ex_prepare ex_prepare_again]
  by (simp add: ex_init_no_entry ex_init_size ex_prepared_size)

text \<open>
  The claim as stated fails when the clock advances between the two calls: the first
  prepare stamps the entry with creation time 0, the second with 1, and the two states
  differ.
\<close>

theorem prepare_txn_twice_counterexample:
  "prepare_txn 100 0 10 100 7 42 U1 L1 ex_init = (OK, ex_prepared) \<and>
   prepare_txn 100 1 10 100 7 42 U1 L1 ex_prepared = (OK, ex_prepared_again) \<and>
   ex_prepared_again \<noteq> ex_prepared \<and>
   find_load_info (get_txn_tablet_map ex_prepared 100) (10, 100)
     \<lparr>tablet_id = 7, schema_hash = 42, tablet_uid = U1\<rparr>
   = Some \<lparr>load_id = L1, rowset = None, creation_time = 0\<rparr> \<and>
   find_load_info (get_txn_tablet_map ex_prepared_again 100) (10, 100)
     \<lparr>tablet_id = 7, schema_hash = 42, tablet_uid = U1\<rparr>
   = Some \<lparr>load_id = L1, rowset = None, creation_time = 1\<rparr>"
  using ex_prepare[of 100] ex_prepare_again ex_prepared_again_differs ex_prepared_entry
    ex_prepared_again_entry
  by simp

section \<open>Commit and the creation time\<close>

text \<open>
  Claim C7, as the code has it. Whenever commit assigns the entry (every commit that
  returns ok other than the duplicate of an entry already committed with the same load
  id), the entry it leaves is built anew from the load id, the rowset and the current
  time: its creation time is the current time whether or not an entry existed before,
  and the creation time of a prior entry is not kept.
\<close>

theorem commit_txn_upsert_stamps_current_time:
  assumes "shards_allocated s"
    and "\<not> (\<exists>e. find_load_info (get_txn_tablet_map s transaction_id)
                 (partition_id, transaction_id)
                 \<lparr>tablet_id = tablet_id', schema_hash = schema_hash',
                    tablet_uid = tablet_uid'\<rparr> = Some e \<and>
               load_id e = L \<and> rowset e \<noteq> None)"
    and "commit_txn save_ok now partition_id transaction_id tablet_id' schema_hash' tablet_uid'
           L (Some R) is_recovery s = Some (OK, s')"
  shows "find_load_info (get_txn_tablet_map s' transaction_id) (partition_id, transaction_id)
           \<lparr>tablet_id = tablet_id', schema_hash = schema_hash', tablet_uid = tablet_uid'\<rparr>
         = Some \<lparr>load_id = L, rowset = Some R, creation_time = now\<rparr>"
  using assms
  by (auto simp: commit_txn_def Let_def PUniqueId_eq_iff RowsetMetaManager_save_def
      find_after_assign new_TabletTxnInfo_def split: option.splits if_splits)

theorem commit_txn_upsert_stamps_current_time_witness:
  "find_load_info (get_txn_tablet_map ex_committed 100) (10, 100)
     \<lparr>tablet_id = 7, schema_hash = 42, tablet_uid = U1\<rparr>
   = Some \<lparr>load_id = L1, rowset = Some 1, creation_time = 3\<rparr>"
  by (rule commit_txn_upsert_stamps_current_time [OF ex_prepared_allocated _ ex_commit])
     (simp add: ex_prepared_entry)

text \<open>
  The claim as stated fails on scenario S1: the entry prepared at time 0 exists when the
  commit at time 3 assigns it, and its creation time afterwards is 3, not 0.
\<close>

theorem commit_txn_creation_time_counterexample:
  "find_load_info (get_txn_tablet_map ex_prepared 100) (10, 100)
     \<lparr>tablet_id = 7, schema_hash = 42, tablet_uid = U1\<rparr>
   = Some \<lparr>load_id = L1, rowset = None, creation_time = 0\<rparr> \<and>
   commit_txn True 3 10 100 7 42 U1 L1 (Some 1) False ex_prepared = Some (OK, ex_committed) \<and>
   find_load_info (get_txn_tablet_map ex_committed 100) (10, 100)
     \<lparr>tablet_id = 7, schema_hash = 42, tablet_uid = U1\<rparr>
   = Some \<lparr>load_id = L1, rowset = Some 1, creation_time = 3\<rparr>"
  using ex_prepared_entry ex_commit ex_committed_entry by simp

section \<open>A publish whose save fails\<close>

text \<open>
  Claim C8 does not hold of the code. In scenario S1 with the disk write of the publish
  failing, \<open>make_visible\<close> has already written version (5, 5) into the rowset that the
  entry points to; publish returns the save-failed error and the entry stays in the
  tablet map, holding a rowset whose version starts at 5.
\<close>

theorem publish_txn_save_failed_keeps_visible_rowset:
  "publish_txn False (Some OK) 10 100 7 42 U1 (5, 5) ex_committed
   = Some (OLAPInternalError OLAP_ERR_ROWSET_SAVE_FAILED, ex_publish_failed) \<and>
   find_load_info (get_txn_tablet_map ex_publish_failed 100) (10, 100)
     \<lparr>tablet_id = 7, schema_hash = 42, tablet_uid = U1\<rparr>
   = Some \<lparr>load_id = L1, rowset = Some 1, creation_time = 3\<rparr> \<and>
   version (rowsets ex_publish_failed 1) = (5, 5) \<and>
   0 < fst (version (rowsets ex_publish_failed 1))"
  by (simp add: ex_publish_fails)
     (simp add: find_load_info_def get_txn_tablet_map_def ex_publish_failed_def T1_def)

section \<open>Prepare over a committed entry\<close>

text \<open>
  Claim C10, as the code has it. Where the key and tablet hold a committed entry and
  prepare is called with a different load id: if the partition map of the shard has no
  more elements than the configured maximum, prepare returns ok and the entry becomes
  the uncommitted one with the new load id, no rowset and the current time; if it has
  more, prepare returns the too-many-transactions error and the state is unchanged.
\<close>

theorem prepare_txn_replaces_committed_entry_under_cap:
  assumes "shards_allocated s"
    and "find_load_info (get_txn_tablet_map s transaction_id) (partition_id, transaction_id)
           \<lparr>tablet_id = tablet_id', schema_hash = schema_hash', tablet_uid = tablet_uid'\<rparr>
         = Some e"
    and "rowset e = Some R" and "load_id e \<noteq> L"
  shows "(fcard (fmdom (get_txn_partition_map s transaction_id)) \<le> cap \<longrightarrow>
            fst (prepare_txn cap now partition_id transaction_id tablet_id' schema_hash'
                   tablet_uid' L s) = OK \<and>
            find_load_info
              (get_txn_tablet_map
                 (snd (prepare_txn cap now partition_id transaction_id tablet_id' schema_hash'
                         tablet_uid' L s)) transaction_id)
              (partition_id, transaction_id)
              \<lparr>tablet_id = tablet_id', schema_hash = schema_hash', tablet_uid = tablet_uid'\<rparr>
            = Some \<lparr>load_id = L, rowset = None, creation_time = now\<rparr>) \<and>
         (cap < fcard (fmdom (get_txn_partition_map s transaction_id)) \<longrightarrow>
            prepare_txn cap now partition_id transaction_id tablet_id' schema_hash'
              tablet_uid' L s = (OLAPInternalError OLAP_ERR_TOO_MANY_TRANSACTIONS, s))"
  using assms
  by (auto simp: prepare_txn_def Let_def PUniqueId_eq_iff find_after_assign
      new_TabletTxnInfo_def)

theorem prepare_txn_replaces_committed_entry_under_cap_witness:
  "fst (prepare_txn 100 5 10 100 7 42 U1 L2 ex_committed) = OK \<and>
   find_load_info
     (get_txn_tablet_map (snd (prepare_txn 100 5 10 100 7 42 U1 L2 ex_committed)) 100)
     (10, 100) \<lparr>tablet_id = 7, schema_hash = 42, tablet_uid = U1\<rparr>
   = Some \<lparr>load_id = L2, rowset = None, creation_time = 5\<rparr>"
  using prepare_txn_replaces_committed_entry_under_cap
          [OF ex_committed_allocated ex_committed_entry, of 1 L2 100 5]
  by (simp add: ex_committed_size L1_def L2_def)

text \<open>
  The claim as stated fails with a maximum of 1 once two transactions are in the shard:
  transaction 100 is committed with load id \<open>L1\<close>, and a prepare for it with load id
  \<open>L2\<close> returns the too-many-transactions error and leaves the committed entry in place.
\<close>

theorem prepare_txn_over_committed_counterexample:
  "prepare_txn 1 0 10 100 7 42 U1 L1 ex_init = (OK, ex_prepared) \<and>
   commit_txn True 3 10 100 7 42 U1 L1 (Some 1) False ex_prepared = Some (OK, ex_committed) \<and>
   prepare_txn 1 4 10 101 7 42 U1 L1 ex_committed = (OK, ex_two_txns) \<and>
   L2 \<noteq> L1 \<and>
   prepare_txn 1 5 10 100 7 42 U1 L2 ex_two_txns
     = (OLAPInternalError OLAP_ERR_TOO_MANY_TRANSACTIONS, ex_two_txns) \<and>
   find_load_info (get_txn_tablet_map ex_two_txns 100) (10, 100)
     \<lparr>tablet_id = 7, schema_hash = 42, tablet_uid = U1\<rparr>
   = Some \<lparr>load_id = L1, rowset = Some 1, creation_time = 3\<rparr>"
proof -
  have "prepare_txn 1 5 10 100 7 42 U1 L2 ex_two_txns
        = (OLAPInternalError OLAP_ERR_TOO_MANY_TRANSACTIONS, ex_two_txns)"
    by (simp add: prepare_txn_def get_txn_tablet_map_def get_txn_partition_map_def
        find_load_info_def ex_two_txns_def T1_def L1_def L2_def Let_def fcard_fempty
        fcard_finsert_if)
  moreover have "L2 \<noteq> L1"
    by (simp add: L1_def L2_def)
  ultimately show ?thesis
    using ex_prepare[of 1] ex_commit ex_prepare_second_txn ex_two_txns_entry by simp
qed

section \<open>The partition map mirrors the keys of the tablet map\<close>

lemma recorded_after_insert:
  assumes "shards_allocated s" and "i < length (txn_partition_maps s)"
  shows "recorded_partitions (txn_partition_maps (insert_txn_partition_map_unlocked t p s) ! i) x
         = (if i = shard_index s t \<and> x = t
            then finsert p (recorded_partitions (txn_partition_maps s ! i) x)
            else recorded_partitions (txn_partition_maps s ! i) x)"
  using assms
  by (auto simp: insert_txn_partition_map_unlocked_def Let_def recorded_partitions_def
      get_txn_partition_map_def nth_list_update shard_index_in_range split: option.splits)

lemma recorded_after_clear:
  assumes "shards_allocated s" and "i < length (txn_partition_maps s)"
  shows "recorded_partitions (txn_partition_maps (clear_txn_partition_map_unlocked t p s) ! i) x
         = (if i = shard_index s t \<and> x = t
            then recorded_partitions (txn_partition_maps s ! i) x |-| {|p|}
            else recorded_partitions (txn_partition_maps s ! i) x)"
  using assms
  by (auto simp: clear_txn_partition_map_unlocked_def Let_def recorded_partitions_def
      get_txn_partition_map_def nth_list_update shard_index_in_range split: option.splits)

lemma keys_after_assign:
  assumes "shards_allocated s" and "i < length (txn_tablet_maps s)"
  shows "fmdom (txn_tablet_maps (assign_load_info t k ti li s) ! i)
         = (if i = shard_index s t then finsert k (fmdom (txn_tablet_maps s ! i))
            else fmdom (txn_tablet_maps s ! i))"
  using assms
  by (auto simp: assign_load_info_def Let_def get_txn_tablet_map_def nth_list_update
      shard_index_in_range)

lemma keys_after_erase:
  assumes "shards_allocated s" and "i < length (txn_tablet_maps s)"
    and "fmlookup (get_txn_tablet_map s t) (p, t) = Some tm0"
  shows "fmdom (txn_tablet_maps (erase_tablet_info p t ti tm s) ! i)
         = (if i = shard_index s t \<and> fmdom (fmdrop ti tm) = {||}
            then fmdom (txn_tablet_maps s ! i) |-| {|(p, t)|}
            else fmdom (txn_tablet_maps s ! i))"
  using assms
  by (auto simp: erase_tablet_info_def Let_def get_txn_tablet_map_def nth_list_update
      shard_index_in_range dest: fmdomI)

lemma recorded_after_erase:
  assumes "shards_allocated s" and "i < length (txn_partition_maps s)"
  shows "recorded_partitions (txn_partition_maps (erase_tablet_info p t ti tm s) ! i) x
         = (if i = shard_index s t \<and> x = t \<and> fmdom (fmdrop ti tm) = {||}
            then recorded_partitions (txn_partition_maps s ! i) x |-| {|p|}
            else recorded_partitions (txn_partition_maps s ! i) x)"
  using assms
  by (simp add: erase_tablet_info_def Let_def recorded_after_clear shards_allocated_def)

lemma partition_index_ok_field_updates [simp]:
  "partition_index_ok (s\<lparr>meta := m\<rparr>) = partition_index_ok s"
  "partition_index_ok (s\<lparr>rowsets := h\<rparr>) = partition_index_ok s"
  by (simp_all add: partition_index_ok_def)

lemma upsert_keeps_partition_index:
  assumes "partition_index_ok s"
  shows "partition_index_ok
           (insert_txn_partition_map_unlocked t p (assign_load_info t (p, t) ti li s))"
proof -
  let ?s' = "insert_txn_partition_map_unlocked t p (assign_load_info t (p, t) ti li s)"
  from assms have alloc: "shards_allocated s" by (simp add: partition_index_ok_def)
  have len: "length (txn_partition_maps s) = length (txn_tablet_maps s)"
    using alloc by (rule allocated_lengths)
  show ?thesis
    unfolding partition_index_ok_def
  proof (intro conjI allI impI)
    show "shards_allocated ?s'"
      using alloc by simp
  next
    fix i q x
    assume "i < length (txn_tablet_maps ?s')"
    then have i: "i < length (txn_tablet_maps s)" by simp
    from assms i have old:
      "(q, x) |\<in>| fmdom (txn_tablet_maps s ! i) \<longrightarrow> shard_index s x = i"
      "q |\<in>| recorded_partitions (txn_partition_maps s ! i) x
         \<longleftrightarrow> (q, x) |\<in>| fmdom (txn_tablet_maps s ! i)"
      by (simp_all add: partition_index_ok_def)
    show "(q, x) |\<in>| fmdom (txn_tablet_maps ?s' ! i) \<Longrightarrow> shard_index ?s' x = i"
      using old(1) by (auto simp: keys_after_assign[OF alloc i] split: if_splits)
    show "q |\<in>| recorded_partitions (txn_partition_maps ?s' ! i) x
          \<longleftrightarrow> (q, x) |\<in>| fmdom (txn_tablet_maps ?s' ! i)"
      using old i len alloc
      by (auto simp: keys_after_assign recorded_after_insert split: if_splits)
  qed
qed

lemma erase_keeps_partition_index:
  assumes "partition_index_ok s"
    and "fmlookup (get_txn_tablet_map s t) (p, t) = Some tm0"
  shows "partition_index_ok (erase_tablet_info p t ti tm s)"
proof -
  let ?s' = "erase_tablet_info p t ti tm s"
  from assms have alloc: "shards_allocated s" by (simp add: partition_index_ok_def)
  have len: "length (txn_partition_maps s) = length (txn_tablet_maps s)"
    using alloc by (rule allocated_lengths)
  show ?thesis
    unfolding partition_index_ok_def
  proof (intro conjI allI impI)
    show "shards_allocated ?s'"
      using alloc by simp
  next
    fix i q x
    assume "i < length (txn_tablet_maps ?s')"
    then have i: "i < length (txn_tablet_maps s)" by simp
    from assms i have old:
      "(q, x) |\<in>| fmdom (txn_tablet_maps s ! i) \<longrightarrow> shard_index s x = i"
      "q |\<in>| recorded_partitions (txn_partition_maps s ! i) x
         \<longleftrightarrow> (q, x) |\<in>| fmdom (txn_tablet_maps s ! i)"
      by (simp_all add: partition_index_ok_def)
    show "(q, x) |\<in>| fmdom (txn_tablet_maps ?s' ! i) \<Longrightarrow> shard_index ?s' x = i"
      using old(1) by (auto simp: keys_after_erase[OF alloc i assms(2)] split: if_splits)
    show "q |\<in>| recorded_partitions (txn_partition_maps ?s' ! i) x
          \<longleftrightarrow> (q, x) |\<in>| fmdom (txn_tablet_maps ?s' ! i)"
      using old i len alloc
      by (auto simp: keys_after_erase[OF alloc i assms(2)] recorded_after_erase
          split: if_splits)
  qed
qed

lemma init_partition_index: "0 < n \<Longrightarrow> partition_index_ok (TxnManager n heap store)"
  by (simp add: partition_index_ok_def shards_allocated_def TxnManager_def
      recorded_partitions_def)

lemma prepare_keeps_partition_index:
  "partition_index_ok s \<Longrightarrow> prepare_txn cap now p t tb sh uid L s = (st, s') \<Longrightarrow>
   partition_index_ok s'"
  by (auto simp: prepare_txn_def Let_def upsert_keeps_partition_index split: if_splits)

lemma commit_keeps_partition_index:
  "partition_index_ok s \<Longrightarrow>
   commit_txn save_ok now p t tb sh uid L rp is_recovery s = Some (st, s') \<Longrightarrow>
   partition_index_ok s'"
  by (auto simp: commit_txn_def Let_def upsert_keeps_partition_index
      split: if_splits option.splits prod.splits)

lemma publish_keeps_partition_index:
  "partition_index_ok s \<Longrightarrow>
   publish_txn save_ok phase p t tb sh uid v s = Some (st, s') \<Longrightarrow>
   partition_index_ok s'"
  by (auto simp: publish_txn_def Let_def erase_keeps_partition_index
      split: if_splits option.splits prod.splits)

lemma rollback_keeps_partition_index:
  "partition_index_ok s \<Longrightarrow> rollback_txn p t tb sh uid s = (st, s') \<Longrightarrow>
   partition_index_ok s'"
  by (auto simp: rollback_txn_def Let_def erase_keeps_partition_index
      split: if_splits option.splits)

lemma delete_keeps_partition_index:
  "partition_index_ok s \<Longrightarrow> delete_txn has_meta remove_ok p t tb sh uid s = (st, s') \<Longrightarrow>
   partition_index_ok s'"
  by (auto simp: delete_txn_def Let_def erase_keeps_partition_index
      split: if_splits option.splits)

text \<open>
  One iteration of the forced rollback, on a key that lives in the shard of its
  transaction, is the removal block of the other operations after the removals from the
  meta store.
\<close>

lemma force_rollback_key_as_erase:
  assumes alloc: "shards_allocated s"
    and tm: "fmlookup (txn_tablet_maps s ! shard_index s t) (p, t) = Some tm"
  shows "\<exists>m'. force_rollback_key has_meta remove_ok ti (shard_index s t) (p, t) s
              = erase_tablet_info p t ti tm (s\<lparr>meta := m'\<rparr>)"
proof (cases "fmlookup tm ti")
  case None
  then have same: "fmdrop ti tm = tm"
    by (simp add: fmdrop_idle fmdom_notI)
  have upd: "fmupd (p, t) tm (txn_tablet_maps s ! shard_index s t)
             = txn_tablet_maps s ! shard_index s t"
    using tm by (rule fmupd_same)
  have "force_rollback_key has_meta remove_ok ti (shard_index s t) (p, t) s
        = erase_tablet_info p t ti tm (s\<lparr>meta := meta s\<rparr>)"
    using None tm same upd
    by (simp add: force_rollback_key_def erase_tablet_info_def Let_def get_txn_tablet_map_def
        clear_commutes_tablet_maps)
  then show ?thesis by blast
next
  case (Some li)
  define m' where "m' = (case rowset li of
      None \<Rightarrow> meta s
    | Some r \<Rightarrow>
        if has_meta
        then snd (RowsetMetaManager_remove (remove_ok (rowset_id (rowsets s r))) (meta s)
                    (tablet_uid ti) (rowset_id (rowsets s r)))
        else meta s)"
  have "force_rollback_key has_meta remove_ok ti (shard_index s t) (p, t) s
        = erase_tablet_info p t ti tm (s\<lparr>meta := m'\<rparr>)"
    using Some tm shard_index_in_range[OF alloc, of t]
    by (auto simp: force_rollback_key_def erase_tablet_info_def Let_def get_txn_tablet_map_def
        clear_commutes_tablet_maps m'_def fmdrop_fmupd_same split: option.splits)
  then show ?thesis by blast
qed

lemma force_rollback_key_keeps_partition_index:
  assumes "partition_index_ok s" and "i < length (txn_tablet_maps s)"
  shows "partition_index_ok (force_rollback_key has_meta remove_ok ti i key s)"
proof (cases "fmlookup (txn_tablet_maps s ! i) key")
  case None
  then show ?thesis using assms(1) by (simp add: force_rollback_key_def)
next
  case (Some tm)
  obtain p t where key: "key = (p, t)" by (cases key)
  from assms have alloc: "shards_allocated s" by (simp add: partition_index_ok_def)
  have "(p, t) |\<in>| fmdom (txn_tablet_maps s ! i)"
    using Some key by (simp add: fmdomI)
  with assms have i: "i = shard_index s t"
    by (simp add: partition_index_ok_def)
  from Some key i have tm: "fmlookup (txn_tablet_maps s ! shard_index s t) (p, t) = Some tm"
    by simp
  from force_rollback_key_as_erase[OF alloc tm] obtain m' where
    "force_rollback_key has_meta remove_ok ti (shard_index s t) (p, t) s
       = erase_tablet_info p t ti tm (s\<lparr>meta := m'\<rparr>)" by blast
  moreover have "partition_index_ok (erase_tablet_info p t ti tm (s\<lparr>meta := m'\<rparr>))"
    using assms(1) tm by (intro erase_keeps_partition_index[where ?tm0.0 = tm])
      (simp_all add: get_txn_tablet_map_def)
  ultimately show ?thesis using key i by simp
qed

lemma force_rollback_key_keeps_length [simp]:
  "length (txn_tablet_maps (force_rollback_key has_meta remove_ok ti i key s))
   = length (txn_tablet_maps s)"
  by (simp add: force_rollback_key_def Let_def split: option.splits)

lemma force_rollback_key_keeps_size [simp]:
  "txn_map_shard_size (force_rollback_key has_meta remove_ok ti i key s) = txn_map_shard_size s"
  by (simp add: force_rollback_key_def Let_def split: option.splits)

lemma fold_force_rollback_key:
  "partition_index_ok s \<Longrightarrow> i < length (txn_tablet_maps s) \<Longrightarrow>
   partition_index_ok (fold (force_rollback_key has_meta remove_ok ti i) ks s) \<and>
   txn_map_shard_size (fold (force_rollback_key has_meta remove_ok ti i) ks s)
     = txn_map_shard_size s \<and>
   length (txn_tablet_maps (fold (force_rollback_key has_meta remove_ok ti i) ks s))
     = length (txn_tablet_maps s)"
proof (induction ks arbitrary: s)
  case Nil
  then show ?case by simp
next
  case (Cons k ks)
  then show ?case by (simp add: force_rollback_key_keeps_partition_index)
qed

lemma force_rollback_shard_keeps:
  "partition_index_ok s \<Longrightarrow> i < length (txn_tablet_maps s) \<Longrightarrow>
   partition_index_ok (force_rollback_shard has_meta remove_ok ti i s) \<and>
   txn_map_shard_size (force_rollback_shard has_meta remove_ok ti i s) = txn_map_shard_size s \<and>
   length (txn_tablet_maps (force_rollback_shard has_meta remove_ok ti i s))
     = length (txn_tablet_maps s)"
  unfolding force_rollback_shard_def by (rule fold_force_rollback_key)

lemma fold_force_rollback_shard:
  "partition_index_ok s \<Longrightarrow> \<forall>i \<in> set is. i < length (txn_tablet_maps s) \<Longrightarrow>
   partition_index_ok (fold (force_rollback_shard has_meta remove_ok ti) is s)"
proof (induction "is" arbitrary: s)
  case Nil
  then show ?case by simp
next
  case (Cons i "is")
  then show ?case by (simp add: force_rollback_shard_keeps)
qed

lemma force_rollback_keeps_partition_index:
  assumes "partition_index_ok s"
  shows "partition_index_ok (force_rollback_tablet_related_txns has_meta remove_ok tb sh uid s)"
proof -
  from assms have "length (txn_tablet_maps s) = nat (txn_map_shard_size s)"
    by (simp add: partition_index_ok_def shards_allocated_def)
  then show ?thesis
    unfolding force_rollback_tablet_related_txns_def
    using assms by (intro fold_force_rollback_shard) simp_all
qed

lemma reachable_partition_index: "reachable cap s \<Longrightarrow> partition_index_ok s"
proof (induction rule: reachable.induct)
  case (reach_init n heap store)
  then show ?case by (simp add: init_partition_index)
next
  case (reach_prepare s now p t tb sh uid lid st s')
  then show ?case by (blast intro: prepare_keeps_partition_index)
next
  case (reach_commit s save_ok now p t tb sh uid lid rp is_recovery st s')
  then show ?case by (blast intro: commit_keeps_partition_index)
next
  case (reach_publish s save_ok phase p t tb sh uid v st s')
  then show ?case by (blast intro: publish_keeps_partition_index)
next
  case (reach_rollback s p t tb sh uid st s')
  then show ?case by (blast intro: rollback_keeps_partition_index)
next
  case (reach_delete s has_meta remove_ok p t tb sh uid st s')
  then show ?case by (blast intro: delete_keeps_partition_index)
next
  case (reach_force_rollback s has_meta remove_oks tb sh uid)
  then show ?case by (simp add: force_rollback_keeps_partition_index)
qed

text \<open>
  Claim C9. In every state reached from a constructed manager by any sequence of
  completed prepare, commit, publish, rollback, delete_txn and forced-rollback operations,
  the partition ids that the partition map holds for a transaction id are exactly the
  partition ids of the tablet-map keys, over all shards, that carry that transaction id.
\<close>

theorem partition_map_matches_tablet_map_keys:
  assumes "reachable cap s"
  shows "fset (get_partition_ids s transaction_id)
         = {partition_id. \<exists>i < length (txn_tablet_maps s).
              (partition_id, transaction_id) \<in> fmdom' (txn_tablet_maps s ! i)}"
proof -
  from assms have ok: "partition_index_ok s" by (rule reachable_partition_index)
  then have alloc: "shards_allocated s" by (simp add: partition_index_ok_def)
  have r: "shard_index s transaction_id < length (txn_tablet_maps s)"
    using alloc by (rule shard_index_in_range)
  have "get_partition_ids s transaction_id
        = recorded_partitions (txn_partition_maps s ! shard_index s transaction_id)
            transaction_id"
    by (simp add: get_partition_ids_def recorded_partitions_def get_txn_partition_map_def)
  moreover have "\<And>q. q |\<in>| recorded_partitions
                    (txn_partition_maps s ! shard_index s transaction_id) transaction_id
              \<longleftrightarrow> (\<exists>i < length (txn_tablet_maps s).
                     (q, transaction_id) |\<in>| fmdom (txn_tablet_maps s ! i))"
    using ok r unfolding partition_index_ok_def by blast
  ultimately show ?thesis
    by (auto simp: fmdom'_alt_def)
qed

theorem partition_map_matches_tablet_map_keys_witness:
  "fset (get_partition_ids ex_prepared 100)
   = {partition_id. \<exists>i < length (txn_tablet_maps ex_prepared).
        (partition_id, 100) \<in> fmdom' (txn_tablet_maps ex_prepared ! i)}"
  by (rule partition_map_matches_tablet_map_keys[OF ex_prepared_reachable])

section \<open>Committed entries of reachable states\<close>

text \<open>
  The hypotheses of the theorems above hold of every state a manager can be in: its
  shards are allocated, and the ids of every committed entry are at least 1.
\<close>

lemma reachable_shards_allocated: "reachable cap s \<Longrightarrow> shards_allocated s"
  using reachable_partition_index by (simp add: partition_index_ok_def)

lemma committed_ids_valid_field_updates [simp]:
  "committed_ids_valid (s\<lparr>meta := m\<rparr>) = committed_ids_valid s"
  "committed_ids_valid (s\<lparr>rowsets := h\<rparr>) = committed_ids_valid s"
  "committed_ids_valid (insert_txn_partition_map_unlocked t p s) = committed_ids_valid s"
  "committed_ids_valid (clear_txn_partition_map_unlocked t p s) = committed_ids_valid s"
  by (simp_all add: committed_ids_valid_def)

lemma assign_keeps_committed_ids:
  assumes "shards_allocated s" and "committed_ids_valid s"
    and "rowset li \<noteq> None \<longrightarrow> 1 \<le> p \<and> 1 \<le> t \<and> 1 \<le> tablet_id ti"
  shows "committed_ids_valid (assign_load_info t (p, t) ti li s)"
  unfolding committed_ids_valid_def
proof (intro allI impI)
  fix i p' t' tm ti' e
  assume i: "i < length (txn_tablet_maps (assign_load_info t (p, t) ti li s))"
    and tm: "fmlookup (txn_tablet_maps (assign_load_info t (p, t) ti li s) ! i) (p', t') = Some tm"
    and e: "fmlookup tm ti' = Some e" and c: "rowset e \<noteq> None"
  from i have i': "i < length (txn_tablet_maps s)" by simp
  show "1 \<le> p' \<and> 1 \<le> t' \<and> 1 \<le> tablet_id ti'"
  proof (cases "i = shard_index s t \<and> (p', t') = (p, t)")
    case True
    with tm i' have tm_eq: "tm = fmupd ti li (case fmlookup (txn_tablet_maps s ! i) (p, t) of
                                   None \<Rightarrow> fmempty | Some x \<Rightarrow> x)"
      by (simp add: assign_load_info_def Let_def get_txn_tablet_map_def)
    show ?thesis
    proof (cases "ti' = ti")
      case True
      with e tm_eq have "e = li" by simp
      with c assms(3) True \<open>i = shard_index s t \<and> (p', t') = (p, t)\<close> show ?thesis by simp
    next
      case False
      with e tm_eq obtain tm0 where "fmlookup (txn_tablet_maps s ! i) (p, t) = Some tm0"
        and "fmlookup tm0 ti' = Some e"
        by (auto split: option.splits)
      with assms(2) i' c True show ?thesis
        unfolding committed_ids_valid_def by blast
    qed
  next
    case False
    with tm i' assms(1) have "fmlookup (txn_tablet_maps s ! i) (p', t') = Some tm"
      by (auto simp: assign_load_info_def Let_def get_txn_tablet_map_def nth_list_update
          shard_index_in_range split: if_splits)
    with assms(2) i' e c show ?thesis
      unfolding committed_ids_valid_def by blast
  qed
qed

lemma erase_keeps_committed_ids:
  assumes "shards_allocated s" and "committed_ids_valid s"
    and "fmlookup (get_txn_tablet_map s t) (p, t) = Some tm"
  shows "committed_ids_valid (erase_tablet_info p t ti tm s)"
  unfolding committed_ids_valid_def
proof (intro allI impI)
  fix i p' t' tm' ti' e
  assume i: "i < length (txn_tablet_maps (erase_tablet_info p t ti tm s))"
    and tm': "fmlookup (txn_tablet_maps (erase_tablet_info p t ti tm s) ! i) (p', t') = Some tm'"
    and e: "fmlookup tm' ti' = Some e" and c: "rowset e \<noteq> None"
  from i have i': "i < length (txn_tablet_maps s)" by simp
  from tm' i' assms(1,3) have
    "fmlookup (txn_tablet_maps s ! i) (p', t') = Some tm' \<or>
     (tm' = fmdrop ti tm \<and> fmlookup (txn_tablet_maps s ! i) (p', t') = Some tm)"
    by (auto simp: erase_tablet_info_def Let_def get_txn_tablet_map_def nth_list_update
        shard_index_in_range split: if_splits)
  then show "1 \<le> p' \<and> 1 \<le> t' \<and> 1 \<le> tablet_id ti'"
  proof
    assume "fmlookup (txn_tablet_maps s ! i) (p', t') = Some tm'"
    with assms(2) i' e c show ?thesis
      unfolding committed_ids_valid_def by blast
  next
    assume a: "tm' = fmdrop ti tm \<and> fmlookup (txn_tablet_maps s ! i) (p', t') = Some tm"
    with e have "fmlookup tm ti' = Some e" by (auto split: if_splits)
    with assms(2) i' a c show ?thesis
      unfolding committed_ids_valid_def by blast
  qed
qed

lemma init_committed_ids: "committed_ids_valid (TxnManager n heap store)"
  by (simp add: committed_ids_valid_def TxnManager_def)

lemma prepare_keeps_committed_ids:
  "shards_allocated s \<Longrightarrow> committed_ids_valid s \<Longrightarrow>
   prepare_txn cap now p t tb sh uid L s = (st, s') \<Longrightarrow> committed_ids_valid s'"
  by (auto simp: prepare_txn_def Let_def new_TabletTxnInfo_def assign_keeps_committed_ids
      split: if_splits)

lemma commit_keeps_committed_ids:
  "shards_allocated s \<Longrightarrow> committed_ids_valid s \<Longrightarrow>
   commit_txn save_ok now p t tb sh uid L rp is_recovery s = Some (st, s') \<Longrightarrow>
   committed_ids_valid s'"
  by (auto simp: commit_txn_def Let_def new_TabletTxnInfo_def assign_keeps_committed_ids
      split: if_splits option.splits prod.splits)

lemma publish_keeps_committed_ids:
  "shards_allocated s \<Longrightarrow> committed_ids_valid s \<Longrightarrow>
   publish_txn save_ok phase p t tb sh uid v s = Some (st, s') \<Longrightarrow> committed_ids_valid s'"
  by (auto simp: publish_txn_def Let_def erase_keeps_committed_ids
      split: if_splits option.splits prod.splits)

lemma rollback_keeps_committed_ids:
  "shards_allocated s \<Longrightarrow> committed_ids_valid s \<Longrightarrow>
   rollback_txn p t tb sh uid s = (st, s') \<Longrightarrow> committed_ids_valid s'"
  by (auto simp: rollback_txn_def Let_def erase_keeps_committed_ids
      split: if_splits option.splits)

lemma delete_keeps_committed_ids:
  "shards_allocated s \<Longrightarrow> committed_ids_valid s \<Longrightarrow>
   delete_txn has_meta remove_ok p t tb sh uid s = (st, s') \<Longrightarrow> committed_ids_valid s'"
  by (auto simp: delete_txn_def Let_def erase_keeps_committed_ids
      split: if_splits option.splits)

lemma force_rollback_key_keeps_committed_ids:
  assumes "partition_index_ok s" and "committed_ids_valid s"
    and "i < length (txn_tablet_maps s)"
  shows "committed_ids_valid (force_rollback_key has_meta remove_ok ti i key s)"
proof (cases "fmlookup (txn_tablet_maps s ! i) key")
  case None
  then show ?thesis using assms(2) by (simp add: force_rollback_key_def)
next
  case (Some tm)
  obtain p t where key: "key = (p, t)" by (cases key)
  from assms have alloc: "shards_allocated s" by (simp add: partition_index_ok_def)
  have "(p, t) |\<in>| fmdom (txn_tablet_maps s ! i)"
    using Some key by (simp add: fmdomI)
  with assms have i: "i = shard_index s t"
    by (simp add: partition_index_ok_def)
  from Some key i have tm: "fmlookup (txn_tablet_maps s ! shard_index s t) (p, t) = Some tm"
    by simp
  from force_rollback_key_as_erase[OF alloc tm] obtain m' where
    "force_rollback_key has_meta remove_ok ti (shard_index s t) (p, t) s
       = erase_tablet_info p t ti tm (s\<lparr>meta := m'\<rparr>)" by blast
  moreover have "committed_ids_valid (erase_tablet_info p t ti tm (s\<lparr>meta := m'\<rparr>))"
    using assms(2) alloc tm by (intro erase_keeps_committed_ids)
      (simp_all add: get_txn_tablet_map_def)
  ultimately show ?thesis using key i by simp
qed

lemma fold_force_rollback_key_ids:
  "partition_index_ok s \<Longrightarrow> committed_ids_valid s \<Longrightarrow> i < length (txn_tablet_maps s) \<Longrightarrow>
   committed_ids_valid (fold (force_rollback_key has_meta remove_ok ti i) ks s)"
proof (induction ks arbitrary: s)
  case Nil
  then show ?case by simp
next
  case (Cons k ks)
  then show ?case
    by (simp add: force_rollback_key_keeps_committed_ids
        force_rollback_key_keeps_partition_index)
qed

lemma force_rollback_shard_keeps_ids:
  "partition_index_ok s \<Longrightarrow> committed_ids_valid s \<Longrightarrow> i < length (txn_tablet_maps s) \<Longrightarrow>
   committed_ids_valid (force_rollback_shard has_meta remove_ok ti i s)"
  unfolding force_rollback_shard_def by (rule fold_force_rollback_key_ids)

lemma fold_force_rollback_shard_ids:
  "partition_index_ok s \<Longrightarrow> committed_ids_valid s \<Longrightarrow>
   \<forall>i \<in> set is. i < length (txn_tablet_maps s) \<Longrightarrow>
   committed_ids_valid (fold (force_rollback_shard has_meta remove_ok ti) is s)"
proof (induction "is" arbitrary: s)
  case Nil
  then show ?case by simp
next
  case (Cons i "is")
  let ?s' = "force_rollback_shard has_meta remove_ok ti i s"
  from Cons.prems have i: "i < length (txn_tablet_maps s)" by simp
  from force_rollback_shard_keeps[OF Cons.prems(1) i]
  have ok: "partition_index_ok ?s'"
    and len: "length (txn_tablet_maps ?s') = length (txn_tablet_maps s)"
    by simp_all
  have ids: "committed_ids_valid ?s'"
    using Cons.prems(1,2) i by (rule force_rollback_shard_keeps_ids)
  have "\<forall>j \<in> set is. j < length (txn_tablet_maps ?s')"
    using Cons.prems(3) len by simp
  from Cons.IH[OF ok ids this] show ?case by simp
qed

lemma force_rollback_keeps_committed_ids:
  assumes "partition_index_ok s" and "committed_ids_valid s"
  shows "committed_ids_valid (force_rollback_tablet_related_txns has_meta remove_ok tb sh uid s)"
proof -
  from assms have "length (txn_tablet_maps s) = nat (txn_map_shard_size s)"
    by (simp add: partition_index_ok_def shards_allocated_def)
  then show ?thesis
    unfolding force_rollback_tablet_related_txns_def
    using assms by (intro fold_force_rollback_shard_ids) simp_all
qed

lemma reachable_committed_ids: "reachable cap s \<Longrightarrow> committed_ids_valid s"
proof (induction rule: reachable.induct)
  case (reach_init n heap store)
  then show ?case by (simp add: init_committed_ids)
next
  case (reach_prepare s now p t tb sh uid lid st s')
  then show ?case
    by (blast intro: prepare_keeps_committed_ids reachable_shards_allocated)
next
  case (reach_commit s save_ok now p t tb sh uid lid rp is_recovery st s')
  then show ?case
    by (blast intro: commit_keeps_committed_ids reachable_shards_allocated)
next
  case (reach_publish s save_ok phase p t tb sh uid v st s')
  then show ?case
    by (blast intro: publish_keeps_committed_ids reachable_shards_allocated)
next
  case (reach_rollback s p t tb sh uid st s')
  then show ?case
    by (blast intro: rollback_keeps_committed_ids reachable_shards_allocated)
next
  case (reach_delete s has_meta remove_ok p t tb sh uid st s')
  then show ?case
    by (blast intro: delete_keeps_committed_ids reachable_shards_allocated)
next
  case (reach_force_rollback s has_meta remove_oks tb sh uid)
  then show ?case
    by (simp add: force_rollback_keeps_committed_ids reachable_partition_index)
qed

lemma reachable_committed_entry_ids:
  assumes "reachable cap s"
    and "find_load_info (get_txn_tablet_map s t) (p, t)
           \<lparr>tablet_id = tb, schema_hash = sh, tablet_uid = uid\<rparr> = Some e"
    and "rowset e \<noteq> None"
  shows "1 \<le> p \<and> 1 \<le> t \<and> 1 \<le> tb"
proof -
  from assms(1) have alloc: "shards_allocated s" by (rule reachable_shards_allocated)
  from assms(2) obtain tm where
    "fmlookup (txn_tablet_maps s ! shard_index s t) (p, t) = Some tm"
    "fmlookup tm \<lparr>tablet_id = tb, schema_hash = sh, tablet_uid = uid\<rparr> = Some e"
    by (auto simp: find_load_info_def get_txn_tablet_map_def split: option.splits)
  with reachable_committed_ids[OF assms(1)] shard_index_in_range(1)[OF alloc, of t] assms(3)
  have "1 \<le> p \<and> 1 \<le> t \<and> 1 \<le> tablet_id \<lparr>tablet_id = tb, schema_hash = sh, tablet_uid = uid\<rparr>"
    unfolding committed_ids_valid_def by blast
  then show ?thesis by simp
qed

end
